theory Spec2Isabelle
  imports Complex_Main "HOL-Library.Log_Nat"
begin

section \<open>Strings and Python truthiness\<close>

text \<open>
  Slot values (\<open>origin_city\<close>, \<open>destination\<close>, ...) are Python \<open>str\<close>; they are only ever
  compared, after \<open>.lower()\<close>, with ASCII sentinel strings, so they are modelled as
  \<open>string\<close> with a lowering of the letters A-Z. Numbers: \<open>num_days\<close> and \<open>num_people\<close> are
  Python ints (\<open>int\<close>). The budget and the transport figures are finite Python floats,
  each given by its exact value (a \<open>rat\<close>); the arithmetic of the feasibility check on them
  is IEEE 754 double arithmetic, modelled below with its rounding, its infinities and
  the \<open>OverflowError\<close> of the conversion from int.
\<close>

definition lower_char :: "char \<Rightarrow> char" where
  "lower_char c =
     (case map_of (zip ''ABCDEFGHIJKLMNOPQRSTUVWXYZ'' ''abcdefghijklmnopqrstuvwxyz'') c of
        None \<Rightarrow> c
      | Some l \<Rightarrow> l)"

definition lower :: "string \<Rightarrow> string" where
  "lower s = map lower_char s"

text \<open>\<open>d.get(key)\<close> used as a condition: \<open>None\<close>, the empty string and zero are falsy.\<close>

definition truthy_str :: "string option \<Rightarrow> bool" where
  "truthy_str v = (case v of None \<Rightarrow> False | Some s \<Rightarrow> s \<noteq> [])"

definition truthy_int :: "int option \<Rightarrow> bool" where
  "truthy_int v = (case v of None \<Rightarrow> False | Some n \<Rightarrow> n \<noteq> 0)"

definition truthy_num :: "rat option \<Rightarrow> bool" where
  "truthy_num v = (case v of None \<Rightarrow> False | Some x \<Rightarrow> x \<noteq> 0)"

text \<open>The value of \<open>d.get(key)\<close> where the source has already tested it to be truthy.\<close>

definition str_of :: "string option \<Rightarrow> string" where
  "str_of v = (case v of None \<Rightarrow> [] | Some s \<Rightarrow> s)"

definition int_of_opt :: "int option \<Rightarrow> int" where
  "int_of_opt v = (case v of None \<Rightarrow> 0 | Some n \<Rightarrow> n)"

definition num_of :: "rat option \<Rightarrow> rat" where
  "num_of v = (case v of None \<Rightarrow> 0 | Some x \<Rightarrow> x)"


section \<open>Data model\<close>

text \<open>
  Modelled from the spec: the class \<open>TripDetails\<close> is declared in the module \<open>schemas\<close>,
  which is not among the sources. Its fields are those of the specification's TripSlots
  that \<open>plan_trip_from_prompt\<close> reads or writes on the extracted object, with the types
  the handler uses them at: the two cities are strings (\<open>.lower()\<close> is called on them),
  the interests and the start date may be \<open>None\<close>. \<open>preferred_language\<close>, which the
  handler only passes on, is left out; \<open>original_destination\<close> is never read or written
  on the object, only in the dictionaries below.
\<close>

record trip_details =
  origin_city :: string
  destination :: string
  num_days :: int
  num_people :: int
  budget :: rat
  interests :: "string option"
  start_date :: "string option"

text \<open>
  The dictionary \<open>request.previous_extraction\<close>, which is the \<open>extracted_details\<close> of an
  earlier response sent back by the client. Field \<open>get_k d\<close> is \<open>d.get('k')\<close>: \<open>None\<close> when
  the key is absent or its value is \<open>None\<close>.
\<close>

record details_dict =
  get_origin_city :: "string option"
  get_destination :: "string option"
  get_num_days :: "int option"
  get_num_people :: "int option"
  get_budget :: "rat option"
  get_interests :: "string option"
  get_start_date :: "string option"
  get_original_destination :: "string option"
  get_was_budget_insufficient :: "bool option"

text \<open>
  \<open>trip_details.model_dump()\<close>: the fields of \<open>TripDetails\<close>; the keys
  \<open>original_destination\<close> and \<open>was_budget_insufficient\<close> are not among them.
\<close>

definition model_dump :: "trip_details \<Rightarrow> details_dict" where
  "model_dump td =
     \<lparr> get_origin_city = Some (origin_city td),
       get_destination = Some (destination td),
       get_num_days = Some (num_days td),
       get_num_people = Some (num_people td),
       get_budget = Some (budget td),
       get_interests = interests td,
       get_start_date = start_date td,
       get_original_destination = None,
       get_was_budget_insufficient = None \<rparr>"


section \<open>Slot merge (server.py, lines 2190-2257)\<close>

definition merge_sentinels :: "string list" where
  "merge_sentinels = [''not specified'', ''unknown'', ''n/a'', '''']"

definition merge_origin_city :: "details_dict \<Rightarrow> trip_details \<Rightarrow> trip_details" where
  "merge_origin_city prev td =
     (if lower (origin_city td) \<in> set merge_sentinels \<and> truthy_str (get_origin_city prev)
      then td\<lparr>origin_city := str_of (get_origin_city prev)\<rparr>
      else td)"

definition merge_destination :: "details_dict \<Rightarrow> trip_details \<Rightarrow> trip_details" where
  "merge_destination prev td =
     (if lower (destination td) \<in> set merge_sentinels \<and> truthy_str (get_destination prev)
      then td\<lparr>destination := str_of (get_destination prev)\<rparr>
      else td)"

definition merge_num_days :: "details_dict \<Rightarrow> trip_details \<Rightarrow> trip_details" where
  "merge_num_days prev td =
     (if num_days td \<le> 0 \<and> truthy_int (get_num_days prev)
      then td\<lparr>num_days := int_of_opt (get_num_days prev)\<rparr>
      else td)"

definition merge_num_people :: "details_dict \<Rightarrow> trip_details \<Rightarrow> trip_details" where
  "merge_num_people prev td =
     (if num_people td \<le> 0 \<and> truthy_int (get_num_people prev)
      then td\<lparr>num_people := int_of_opt (get_num_people prev)\<rparr>
      else td)"

text \<open>
  The budget branch: an unknown new budget keeps the old one; a known new budget stays,
  and when it is greater than the old one and the previous extraction carries an
  \<open>original_destination\<close>, the destination is set back to it.
\<close>

definition merge_budget :: "details_dict \<Rightarrow> trip_details \<Rightarrow> trip_details" where
  "merge_budget prev td =
     (if budget td \<le> 0 \<and> truthy_num (get_budget prev)
      then td\<lparr>budget := num_of (get_budget prev)\<rparr>
      else if budget td > 0 \<and> truthy_num (get_budget prev)
      then (if budget td > num_of (get_budget prev)
            then (if truthy_str (get_original_destination prev)
                  then td\<lparr>destination := str_of (get_original_destination prev)\<rparr>
                  else td)
            else td)
      else td)"

definition merge_interests :: "details_dict \<Rightarrow> trip_details \<Rightarrow> trip_details" where
  "merge_interests prev td =
     (if \<not> truthy_str (interests td) \<and> truthy_str (get_interests prev)
      then td\<lparr>interests := get_interests prev\<rparr>
      else td)"

definition merge_start_date :: "details_dict \<Rightarrow> trip_details \<Rightarrow> trip_details" where
  "merge_start_date prev td =
     (if \<not> truthy_str (start_date td) \<and> truthy_str (get_start_date prev)
      then td\<lparr>start_date := get_start_date prev\<rparr>
      else td)"

text \<open>The seven updates run in the order of the source, each on the result of the last.\<close>

definition merge :: "details_dict \<Rightarrow> trip_details \<Rightarrow> trip_details" where
  "merge prev td =
     merge_start_date prev
       (merge_interests prev
         (merge_budget prev
           (merge_num_people prev
             (merge_num_days prev
               (merge_destination prev
                 (merge_origin_city prev td))))))"


text \<open>Line 2190: the merge runs when the request carries a previous extraction.\<close>

definition merged_slots :: "details_dict option \<Rightarrow> trip_details \<Rightarrow> trip_details" where
  "merged_slots previous_extraction extracted =
     (case previous_extraction of
        Some prev \<Rightarrow> merge prev extracted
      | None \<Rightarrow> extracted)"


section \<open>Completeness check (server.py, lines 2262-2299)\<close>

definition validation_sentinels :: "string list" where
  "validation_sentinels = [''not specified'', ''unknown'', ''n/a'', '''', ''anywhere'']"

definition missing_fields :: "trip_details \<Rightarrow> string list" where
  "missing_fields td =
     (if origin_city td = [] \<or> lower (origin_city td) \<in> set validation_sentinels
      then [''origin city''] else []) @
     (if destination td = [] \<or> lower (destination td) \<in> set validation_sentinels
      then [''destination''] else []) @
     (if num_days td \<le> 0 then [''duration''] else []) @
     (if budget td \<le> 0 then [''budget''] else []) @
     (if \<not> truthy_str (start_date td) then [''start date''] else [])"

text \<open>
  The specification's rule, to compare with the code: a text slot is unknown when it is
  one of the sentinel strings whatever the letter case, a number when it is not positive;
  the start date is unknown when it is absent or one of the sentinel strings.
\<close>

definition spec_sentinel :: "string \<Rightarrow> bool" where
  "spec_sentinel s = (lower s \<in> set [''not specified'', ''unknown'', ''n/a'', '''', ''anywhere''])"

definition required_fields :: "string list" where
  "required_fields = [''origin city'', ''destination'', ''duration'', ''budget'', ''start date'']"

definition spec_unknown :: "trip_details \<Rightarrow> string \<Rightarrow> bool" where
  "spec_unknown td f =
     (if f = ''origin city'' then spec_sentinel (origin_city td)
      else if f = ''destination'' then spec_sentinel (destination td)
      else if f = ''duration'' then num_days td \<le> 0
      else if f = ''budget'' then budget td \<le> 0
      else if f = ''start date''
      then (case start_date td of None \<Rightarrow> True | Some s \<Rightarrow> spec_sentinel s)
      else False)"

text \<open>
  The rule as amended for the start date: it is unknown only when it is absent or the
  empty string; a sentinel string in it counts as known.
\<close>

definition amended_unknown :: "trip_details \<Rightarrow> string \<Rightarrow> bool" where
  "amended_unknown td f =
     (if f = ''start date'' then (start_date td = None \<or> start_date td = Some [])
      else spec_unknown td f)"


section \<open>Research cache (server.py, lines 301-303 and 380-395)\<close>

text \<open>
  Research texts are Python \<open>str\<close> holding the rupee sign, so they are lists of Unicode code
  points. The research bundle is the dictionary built by \<open>run_research_parallel\<close>.
\<close>

type_synonym ustr = "nat list"

record research_data =
  minimum_budget :: ustr
  travel_advisory :: ustr
  weather :: ustr
  document_info :: ustr

text \<open>
  The two module-level dictionaries, passed explicitly. Times are seconds, the value of
  \<open>datetime.now()\<close> at the call.
\<close>

record cache_state =
  research_cache :: "string \<rightharpoonup> research_data"
  research_cache_timestamps :: "string \<rightharpoonup> rat"

definition RESEARCH_CACHE_DURATION_SECONDS :: rat where
  "RESEARCH_CACHE_DURATION_SECONDS = 3600"

definition get_cached_research :: "cache_state \<Rightarrow> rat \<Rightarrow> string \<Rightarrow> research_data option" where
  "get_cached_research c now dest =
     (case research_cache c dest of
        None \<Rightarrow> None
      | Some data \<Rightarrow>
          (case research_cache_timestamps c dest of
             None \<Rightarrow> None
           | Some timestamp \<Rightarrow>
               (let age = now - timestamp
                in if age < RESEARCH_CACHE_DURATION_SECONDS then Some data else None)))"

text \<open>The two dictionaries as the module creates them.\<close>

definition empty_cache :: cache_state where
  "empty_cache = \<lparr> research_cache = Map.empty, research_cache_timestamps = Map.empty \<rparr>"

definition cache_research :: "cache_state \<Rightarrow> rat \<Rightarrow> string \<Rightarrow> research_data \<Rightarrow> cache_state" where
  "cache_research c now dest data =
     c\<lparr> research_cache := (research_cache c)(dest \<mapsto> data),
        research_cache_timestamps := (research_cache_timestamps c)(dest \<mapsto> now) \<rparr>"

section \<open>Failures\<close>

text \<open>
  The exceptions that the code modelled here can raise, and the failure of a collaborator
  (a research tool, a transport estimator, the planning agent).
\<close>

datatype failure =
  ZeroDivisionError | OverflowError | ValueError | TypeError | CollaboratorError


section \<open>Cost-signal parsing (server.py, lines 2388-2417)\<close>

text \<open>
  The three regular expressions of the source, as matchers on code-point lists.
  The whitespace class is Python's Unicode whitespace. The digit class of a \<open>str\<close>
  pattern is the decimal digits of Unicode (category Nd), which \<open>int()\<close> converts by their
  digit values: they come in runs of ten, and \<open>decimal_zeros\<close> lists the code point of the
  zero of each run (Unicode 14.0, the database of CPython 3.11).
  In each pattern the classes that follow one another are disjoint, so the greedy match
  is the only one and no backtracking is modelled.
\<close>

definition ascii :: "string \<Rightarrow> ustr" where
  "ascii s = map of_char s"

definition rupee :: nat where
  "rupee = 8377"

definition is_space :: "nat \<Rightarrow> bool" where
  "is_space c =
     (c \<in> set [9, 10, 11, 12, 13, 28, 29, 30, 31, 32, 133, 160, 5760,
                8232, 8233, 8239, 8287, 12288]
      \<or> (8192 \<le> c \<and> c \<le> 8202))"

definition decimal_zeros :: "nat list" where
  "decimal_zeros =
     [48, 1632, 1776, 1984, 2406, 2534, 2662, 2790, 2918, 3046, 3174, 3302, 3430, 3558,
      3664, 3792, 3872, 4160, 4240, 6112, 6160, 6470, 6608, 6784, 6800, 6992, 7088, 7232,
      7248, 42528, 43216, 43264, 43472, 43504, 43600, 44016, 65296, 66720, 68912, 69734,
      69872, 69942, 70096, 70384, 70736, 70864, 71248, 71360, 71472, 71904, 72016, 72784,
      73040, 73120, 92768, 92864, 93008, 120782, 120792, 120802, 120812, 120822, 123200,
      123632, 125264, 130032]"

definition digit_value :: "nat \<Rightarrow> nat option" where
  "digit_value c =
     (case filter (\<lambda>z. z \<le> c \<and> c < z + 10) decimal_zeros of
        [] \<Rightarrow> None
      | z # _ \<Rightarrow> Some (c - z))"

definition is_digit :: "nat \<Rightarrow> bool" where
  "is_digit c = (digit_value c \<noteq> None)"

text \<open>The value of a string of decimal digits.\<close>

definition digits_value :: "ustr \<Rightarrow> nat" where
  "digits_value ds =
     foldl (\<lambda>acc d. 10 * acc + (case digit_value d of None \<Rightarrow> 0 | Some v \<Rightarrow> v)) 0 ds"

text \<open>
  \<open>int(s)\<close> on a string of decimal digits: CPython 3.11 raises \<open>ValueError\<close> when the
  string has more than 4300 digits, leading zeros counted.
\<close>

definition int_of_digits :: "ustr \<Rightarrow> failure + nat" where
  "int_of_digits ds = (if 4300 < length ds then Inl ValueError else Inr (digits_value ds))"

definition extracted_marker :: ustr where
  "extracted_marker = ascii ''EXTRACTED MINIMUM:''"

definition starts_with :: "ustr \<Rightarrow> ustr \<Rightarrow> bool" where
  "starts_with p xs = (take (length p) xs = p)"

text \<open>
  The pattern of the labelled minimum, matched at the head of the text: the literal
  \<open>EXTRACTED MINIMUM:\<close>, any whitespace, the rupee sign, any whitespace, one or more digits.
  The result is the group: the digits, as many as there are.
\<close>

definition match_extracted :: "ustr \<Rightarrow> ustr option" where
  "match_extracted xs =
     (if starts_with extracted_marker xs
      then (case dropWhile is_space (drop (length extracted_marker) xs) of
              [] \<Rightarrow> None
            | c # rest \<Rightarrow>
                if c = rupee
                then (let ds = takeWhile is_digit (dropWhile is_space rest)
                      in if ds = [] then None else Some ds)
                else None)
      else None)"

text \<open>\<open>re.search\<close>: the leftmost position where the pattern matches.\<close>

fun search_extracted :: "ustr \<Rightarrow> ustr option" where
  "search_extracted [] = None"
| "search_extracted (c # cs) =
     (case match_extracted (c # cs) of
        Some ds \<Rightarrow> Some ds
      | None \<Rightarrow> search_extracted cs)"

text \<open>
  After a currency mark: any whitespace, then one to \<open>k\<close> digits, as many as there are.
  The result is the amount (\<open>int\<close> of the group) and the text left after the match.
\<close>

definition match_amount :: "nat \<Rightarrow> ustr \<Rightarrow> (nat \<times> ustr) option" where
  "match_amount k xs =
     (let ys = dropWhile is_space xs;
          ds = take k (takeWhile is_digit ys)
      in if ds = [] then None else Some (digits_value ds, drop (length ds) ys))"

text \<open>
  \<open>re.findall\<close> with one group: the non-overlapping matches from left to right, the scan
  going on where the last match ended.
\<close>

function findall_amounts :: "(nat \<Rightarrow> bool) \<Rightarrow> nat \<Rightarrow> ustr \<Rightarrow> nat list" where
  "findall_amounts mark k [] = []"
| "findall_amounts mark k (c # cs) =
     (if mark c
      then (case match_amount k cs of
              Some (v, rest) \<Rightarrow> v # findall_amounts mark k rest
            | None \<Rightarrow> findall_amounts mark k cs)
      else findall_amounts mark k cs)"
  by pat_completeness auto

lemma match_amount_shorter: "match_amount k xs = Some (v, rest) \<Longrightarrow> length rest \<le> length xs"
proof -
  assume m: "match_amount k xs = Some (v, rest)"
  have "length (dropWhile is_space xs) \<le> length xs"
    by (rule length_dropWhile_le)
  moreover from m have "length rest \<le> length (dropWhile is_space xs)"
    by (auto simp: match_amount_def Let_def split: if_splits)
  ultimately show ?thesis by simp
qed

termination findall_amounts
  by (relation "measure (\<lambda>(mark, k, xs). length xs)")
     (auto dest: match_amount_shorter)

text \<open>
  The marks: the rupee pattern starts with one character of the class holding the rupee
  sign, \<open>R\<close>, \<open>s\<close> and the full stop; the dollar pattern with the dollar sign.
\<close>

definition is_rupee_mark :: "nat \<Rightarrow> bool" where
  "is_rupee_mark c = (c \<in> set [rupee, 82, 115, 46])"

definition is_dollar_mark :: "nat \<Rightarrow> bool" where
  "is_dollar_mark c = (c = 36)"

text \<open>
  Without a labelled minimum: the choice among the amounts of the two \<open>findall\<close> searches,
  as the \<open>if\<close>/\<open>elif\<close> chain of the source makes it. The default 2500 stays wherever no
  branch assigns.
\<close>

definition choose_min_daily :: "nat list \<Rightarrow> nat list \<Rightarrow> nat" where
  "choose_min_daily rupee_matches dollar_matches =
     (if rupee_matches \<noteq> []
      then (let amounts = filter (\<lambda>m. 1000 \<le> m \<and> m \<le> 15000) rupee_matches
            in if amounts \<noteq> [] then min_list amounts else 2500)
      else if dollar_matches \<noteq> []
      then (let amounts = map (\<lambda>m. m * 83) (filter (\<lambda>m. 10 \<le> m \<and> m \<le> 200) dollar_matches)
            in if amounts \<noteq> [] then min_list amounts else 2500)
      else 2500)"

definition parse_min_daily :: "ustr \<Rightarrow> failure + nat" where
  "parse_min_daily budget_info =
     (if budget_info \<noteq> []
      then (case search_extracted budget_info of
              Some ds \<Rightarrow> int_of_digits ds
            | None \<Rightarrow>
                Inr (choose_min_daily (findall_amounts is_rupee_mark 5 budget_info)
                       (findall_amounts is_dollar_mark 4 budget_info)))
      else Inr 2500)"


section \<open>Python floats\<close>

text \<open>
  A Python float is an IEEE 754 double: a finite value, an infinity or a NaN. A finite
  double is given by its exact value; the sign of a zero is not kept, since the code only
  compares and divides by zeros, which raise whatever their sign.
\<close>

datatype pyfloat = Finite rat | PosInf | NegInf | NaN

definition pow2 :: "int \<Rightarrow> rat" where
  "pow2 k = (if 0 \<le> k then 2 ^ nat k else 1 / 2 ^ nat (- k))"

text \<open>The exponent \<open>e\<close> of a positive rational \<open>a\<close>: \<open>2^e \<le> a < 2^(e+1)\<close>.\<close>

definition ilog2 :: "rat \<Rightarrow> int" where
  "ilog2 a =
     (if 1 \<le> a then int (floorlog 2 (nat \<lfloor>a\<rfloor>)) - 1
      else - int (ceillog2 (nat \<lceil>1 / a\<rceil>)))"

text \<open>The nearest integer, a tie going to the even one.\<close>

definition round_half_even :: "rat \<Rightarrow> int" where
  "round_half_even y =
     (let f = \<lfloor>y\<rfloor>; d = y - of_int f
      in if d < 1 / 2 then f
         else if 1 / 2 < d then f + 1
         else if even f then f else f + 1)"

text \<open>
  Rounding to the nearest double: a significand of 53 bits, so the last place is
  \<open>2^(e-52)\<close>, and \<open>2^(-1074)\<close> below the least normal exponent -1022; a result of
  magnitude \<open>2^1024\<close> is an overflow.
\<close>

definition round_to_double :: "rat \<Rightarrow> pyfloat" where
  "round_to_double x =
     (if x = 0 then Finite 0
      else
        (let e = ilog2 \<bar>x\<bar>;
             p = max e (- 1022) - 52;
             r = of_int (round_half_even (x / pow2 p)) * pow2 p
         in if pow2 1024 \<le> r then PosInf
            else if r \<le> - pow2 1024 then NegInf
            else Finite r))"

text \<open>The float literals of the source: the doubles nearest to 1.2, 1.3 and 2.5.\<close>

definition float_1_2 :: pyfloat where
  "float_1_2 = round_to_double (6 / 5)"

definition float_1_3 :: pyfloat where
  "float_1_3 = round_to_double (13 / 10)"

definition float_2_5 :: pyfloat where
  "float_2_5 = round_to_double (5 / 2)"

text \<open>Addition, subtraction and multiplication overflow to an infinity and never raise.\<close>

definition fl_neg :: "pyfloat \<Rightarrow> pyfloat" where
  "fl_neg a =
     (case a of Finite x \<Rightarrow> Finite (- x) | PosInf \<Rightarrow> NegInf | NegInf \<Rightarrow> PosInf | NaN \<Rightarrow> NaN)"

definition fl_add :: "pyfloat \<Rightarrow> pyfloat \<Rightarrow> pyfloat" where
  "fl_add a b =
     (case a of
        Finite x \<Rightarrow> (case b of Finite y \<Rightarrow> round_to_double (x + y) | _ \<Rightarrow> b)
      | PosInf \<Rightarrow> (case b of NegInf \<Rightarrow> NaN | NaN \<Rightarrow> NaN | _ \<Rightarrow> PosInf)
      | NegInf \<Rightarrow> (case b of PosInf \<Rightarrow> NaN | NaN \<Rightarrow> NaN | _ \<Rightarrow> NegInf)
      | NaN \<Rightarrow> NaN)"

definition fl_sub :: "pyfloat \<Rightarrow> pyfloat \<Rightarrow> pyfloat" where
  "fl_sub a b = fl_add a (fl_neg b)"

definition inf_times :: "bool \<Rightarrow> rat \<Rightarrow> pyfloat" where
  "inf_times positive y =
     (if y = 0 then NaN else if (0 < y) = positive then PosInf else NegInf)"

definition fl_mul :: "pyfloat \<Rightarrow> pyfloat \<Rightarrow> pyfloat" where
  "fl_mul a b =
     (case a of
        Finite x \<Rightarrow>
          (case b of
             Finite y \<Rightarrow> round_to_double (x * y)
           | PosInf \<Rightarrow> inf_times True x
           | NegInf \<Rightarrow> inf_times False x
           | NaN \<Rightarrow> NaN)
      | PosInf \<Rightarrow>
          (case b of
             Finite y \<Rightarrow> inf_times True y
           | PosInf \<Rightarrow> PosInf
           | NegInf \<Rightarrow> NegInf
           | NaN \<Rightarrow> NaN)
      | NegInf \<Rightarrow>
          (case b of
             Finite y \<Rightarrow> inf_times False y
           | PosInf \<Rightarrow> NegInf
           | NegInf \<Rightarrow> PosInf
           | NaN \<Rightarrow> NaN)
      | NaN \<Rightarrow> NaN)"

text \<open>The quotient by a divisor that is not zero.\<close>

definition fl_quot :: "pyfloat \<Rightarrow> pyfloat \<Rightarrow> pyfloat" where
  "fl_quot a b =
     (case b of
        Finite y \<Rightarrow>
          (case a of
             Finite x \<Rightarrow> round_to_double (x / y)
           | PosInf \<Rightarrow> (if 0 < y then PosInf else NegInf)
           | NegInf \<Rightarrow> (if 0 < y then NegInf else PosInf)
           | NaN \<Rightarrow> NaN)
      | NaN \<Rightarrow> NaN
      | _ \<Rightarrow> (case a of Finite x \<Rightarrow> Finite 0 | _ \<Rightarrow> NaN))"

text \<open>Float division raises on a zero divisor, whatever the dividend.\<close>

definition fl_div :: "pyfloat \<Rightarrow> pyfloat \<Rightarrow> failure + pyfloat" where
  "fl_div a b = (if b = Finite 0 then Inl ZeroDivisionError else Inr (fl_quot a b))"

text \<open>Comparisons; every comparison with a NaN is false.\<close>

definition fl_less :: "pyfloat \<Rightarrow> pyfloat \<Rightarrow> bool" where
  "fl_less a b =
     (case a of
        Finite x \<Rightarrow> (case b of Finite y \<Rightarrow> x < y | PosInf \<Rightarrow> True | _ \<Rightarrow> False)
      | NegInf \<Rightarrow> (case b of Finite y \<Rightarrow> True | PosInf \<Rightarrow> True | _ \<Rightarrow> False)
      | _ \<Rightarrow> False)"

definition fl_ge :: "pyfloat \<Rightarrow> pyfloat \<Rightarrow> bool" where
  "fl_ge a b =
     (case a of
        Finite x \<Rightarrow> (case b of Finite y \<Rightarrow> y \<le> x | NegInf \<Rightarrow> True | _ \<Rightarrow> False)
      | PosInf \<Rightarrow> (case b of NaN \<Rightarrow> False | _ \<Rightarrow> True)
      | NegInf \<Rightarrow> (case b of NegInf \<Rightarrow> True | _ \<Rightarrow> False)
      | NaN \<Rightarrow> False)"

text \<open>
  An int operand of a float operation is first converted to a float, rounded to the
  nearest double; the conversion raises \<open>OverflowError\<close> when the int is too large.
\<close>

definition py_int_to_float :: "int \<Rightarrow> failure + pyfloat" where
  "py_int_to_float i =
     (case round_to_double (of_int i) of
        Finite r \<Rightarrow> Inr (Finite r)
      | _ \<Rightarrow> Inl OverflowError)"

text \<open>\<open>x / n\<close> and \<open>n * x\<close> for a float \<open>x\<close> and an int \<open>n\<close>.\<close>

definition float_div_int :: "pyfloat \<Rightarrow> int \<Rightarrow> failure + pyfloat" where
  "float_div_int x n =
     (case py_int_to_float n of
        Inl e \<Rightarrow> Inl e
      | Inr d \<Rightarrow> fl_div x d)"

definition int_mul_float :: "int \<Rightarrow> pyfloat \<Rightarrow> failure + pyfloat" where
  "int_mul_float n x =
     (case py_int_to_float n of
        Inl e \<Rightarrow> Inl e
      | Inr a \<Rightarrow> Inr (fl_mul a x))"


section \<open>Feasibility check (server.py, lines 2388-2495)\<close>

datatype tier = BudgetFriendly | Moderate | Luxury

text \<open>
  The three variables that the feasibility check leaves to the rest of the handler. The
  shortfall is a float, or the int 0, which is given as the float of the same value.
\<close>

record verdict =
  is_budget_sufficient :: bool
  shortfall :: pyfloat
  budget_tier :: tier

text \<open>The master prompt that is built: the standard one with the tier, or the re-planning one
  with the shortfall.\<close>

datatype strategy = StandardPlanning tier | RePlanning pyfloat

text \<open>
  The collaborators of the handler, which live outside \<open>server.py\<close>: the four research tools
  run together, the two transport estimators of \<open>agent_logic\<close> and the planning agent.
  A call either raises or returns. Every call made is recorded, in order. The user's
  profile is stored outside too: \<open>personalization_section\<close> says whether lines 409-455,
  which join the lists kept in the profile into a text, raise on it or not.
\<close>

record collaborators =
  run_research_parallel :: "string \<Rightarrow> failure + research_data"
  estimate_transport_cost :: "string \<Rightarrow> string \<Rightarrow> int \<Rightarrow> failure + rat"
  estimate_transport_fallback :: "string \<Rightarrow> string \<Rightarrow> int \<Rightarrow> failure + rat"
  agent_executor :: "strategy \<Rightarrow> trip_details \<Rightarrow> research_data \<Rightarrow> failure + string"
  personalization_section :: "failure + unit"

datatype ext_call =
    ResearchCall string
  | TransportCall string string int
  | TransportFallbackCall string string int
  | PlanningCall strategy

text \<open>
  Lines 2421-2438: the primary estimator, and the category-based fallback in the
  \<open>except\<close> branch. A failure of the fallback is not caught here.
\<close>

definition transport_step ::
  "collaborators \<Rightarrow> trip_details \<Rightarrow> (failure + rat) \<times> ext_call list" where
  "transport_step env td =
     (case estimate_transport_cost env (origin_city td) (destination td) (num_people td) of
        Inr transport_cost_total \<Rightarrow>
          (Inr transport_cost_total,
           [TransportCall (origin_city td) (destination td) (num_people td)])
      | Inl e \<Rightarrow>
          (estimate_transport_fallback env (origin_city td) (destination td) (num_people td),
           [TransportCall (origin_city td) (destination td) (num_people td),
            TransportFallbackCall (origin_city td) (destination td) (num_people td)]))"

text \<open>
  Lines 2474-2482: the per-person daily budget against the products of the int minimum
  and the float literals 1.3 and 2.5, each product a rounded float.
\<close>

definition classify_tier :: "pyfloat \<Rightarrow> nat \<Rightarrow> failure + tier" where
  "classify_tier daily_per_person estimated_min_daily =
     (case int_mul_float (int estimated_min_daily) float_1_3 of
        Inl e \<Rightarrow> Inl e
      | Inr low \<Rightarrow>
          if fl_less daily_per_person low then Inr BudgetFriendly
          else (case int_mul_float (int estimated_min_daily) float_2_5 of
                  Inl e \<Rightarrow> Inl e
                | Inr high \<Rightarrow>
                    if fl_less daily_per_person high then Inr Moderate else Inr Luxury))"

text \<open>
  Lines 2442-2487, in the order of the source: \<open>budget / num_people / num_days\<close>; the int
  product \<open>estimated_min_daily * num_days * num_people\<close> times 1.2, plus the transport
  total; the comparison and the shortfall; the tier; and the ratio
  \<open>daily_per_person / estimated_min_daily\<close> that the last \<open>print\<close> of the block formats.
  Every division and every conversion from int can raise. The result is
  \<open>estimated_min_total\<close> and the verdict.
\<close>

definition feasibility_arith ::
  "nat \<Rightarrow> trip_details \<Rightarrow> rat \<Rightarrow> failure + (pyfloat \<times> verdict)" where
  "feasibility_arith estimated_min_daily td transport_cost_total =
     (case float_div_int (Finite (budget td)) (num_people td) of
        Inl e \<Rightarrow> Inl e
      | Inr per_person \<Rightarrow>
     (case float_div_int per_person (num_days td) of
        Inl e \<Rightarrow> Inl e
      | Inr user_daily_per_person \<Rightarrow>
     (case int_mul_float (int estimated_min_daily * num_days td * num_people td) float_1_2 of
        Inl e \<Rightarrow> Inl e
      | Inr buffered \<Rightarrow>
     (let estimated_min_total = fl_add buffered (Finite transport_cost_total);
          sufficient = fl_ge (Finite (budget td)) estimated_min_total;
          short = (if \<not> sufficient then fl_sub estimated_min_total (Finite (budget td))
                   else Finite 0)
      in case classify_tier user_daily_per_person estimated_min_daily of
           Inl e \<Rightarrow> Inl e
         | Inr tier \<Rightarrow>
        (case float_div_int user_daily_per_person (int estimated_min_daily) of
           Inl e \<Rightarrow> Inl e
         | Inr ratio \<Rightarrow>
             Inr (estimated_min_total,
                  \<lparr> is_budget_sufficient = sufficient, shortfall = short,
                    budget_tier = tier \<rparr>))))))"

text \<open>The body of the \<open>try\<close> block: parse, estimate the transport, compute.\<close>

definition feasibility_try ::
  "collaborators \<Rightarrow> research_data \<Rightarrow> trip_details
     \<Rightarrow> (failure + (pyfloat \<times> verdict)) \<times> ext_call list" where
  "feasibility_try env research td =
     (case parse_min_daily (minimum_budget research) of
        Inl e \<Rightarrow> (Inl e, [])
      | Inr estimated_min_daily \<Rightarrow>
          (case transport_step env td of
             (Inl e, calls) \<Rightarrow> (Inl e, calls)
           | (Inr transport_cost_total, calls) \<Rightarrow>
               (feasibility_arith estimated_min_daily td transport_cost_total, calls)))"

text \<open>The \<open>except Exception\<close> branch, lines 2490-2495.\<close>

definition default_verdict :: verdict where
  "default_verdict =
     \<lparr> is_budget_sufficient = True, shortfall = Finite 0, budget_tier = Moderate \<rparr>"

definition budget_validation ::
  "collaborators \<Rightarrow> research_data \<Rightarrow> trip_details \<Rightarrow> verdict \<times> ext_call list" where
  "budget_validation env research td =
     (case feasibility_try env research td of
        (Inl e, calls) \<Rightarrow> (default_verdict, calls)
      | (Inr (estimated_min_total, v), calls) \<Rightarrow> (v, calls))"

text \<open>
  The specification's formula for the total required, in exact arithmetic, to compare
  with the code: the daily minimum times days times people with the 20 percent buffer,
  plus the transport total.
\<close>

definition spec_required_total :: "nat \<Rightarrow> trip_details \<Rightarrow> rat \<Rightarrow> rat" where
  "spec_required_total m td t =
     of_nat m * of_int (num_days td) * of_int (num_people td) * (6 / 5) + t"

text \<open>The specification's ratio of the budget per person and day to the daily minimum.\<close>

definition spec_ratio :: "nat \<Rightarrow> trip_details \<Rightarrow> rat" where
  "spec_ratio m td =
     budget td / of_int (num_people td) / of_int (num_days td) / of_nat m"


section \<open>The handler from the extraction on (server.py, lines 2173-2658)\<close>

text \<open>
  Lines 2339-2367: the cache is read at time \<open>t_read\<close>; on a miss the research tools run and
  their result is cached at time \<open>t_write\<close>. A research bundle is a dictionary of four
  keys, hence truthy. A tool that raises ends the request.
\<close>

definition research_phase ::
  "collaborators \<Rightarrow> rat \<Rightarrow> rat \<Rightarrow> cache_state \<Rightarrow> string
     \<Rightarrow> (failure + research_data) \<times> cache_state \<times> ext_call list" where
  "research_phase env t_read t_write c dest =
     (case get_cached_research c t_read dest of
        Some cached_research \<Rightarrow> (Inr cached_research, c, [])
      | None \<Rightarrow>
          (case run_research_parallel env dest of
             Inl e \<Rightarrow> (Inl e, c, [ResearchCall dest])
           | Inr research \<Rightarrow>
               (Inr research, cache_research c t_write dest research, [ResearchCall dest])))"

text \<open>
  The responses: the extraction failed; more information is needed (the fields missing, one
  follow-up question each, and the slots so far); the plan with the slots and the research;
  or the HTTP 500 of the outermost \<open>except\<close>. Loading the user's profile and saving the
  plan have handlers of their own and raise nothing; they are left out.
\<close>

datatype response =
    ExtractionFailed
  | NeedMoreInformation "string list" details_dict
  | TripPlanGenerated string details_dict research_data
  | PlanningFailed

definition select_strategy :: "verdict \<Rightarrow> strategy" where
  "select_strategy v =
     (if is_budget_sufficient v then StandardPlanning (budget_tier v)
      else RePlanning (shortfall v))"

text \<open>
  \<open>create_standard_planning_prompt\<close> (lines 402-1540), as far as it can raise: the
  personalization section; then, in the text of the prompt, \<open>budget / num_days\<close> (line 482)
  and \<open>budget / (num_days * num_people)\<close> (line 483). The products of the budget with
  0.7, 0.85, 0.9 and 0.95 are finite and their conversion to int raises nothing. The
  text itself is not modelled. \<open>create_replanning_prompt\<close> (lines 1542-1760) only adds and
  formats, and raises nothing.
\<close>

definition create_standard_planning_prompt ::
  "collaborators \<Rightarrow> trip_details \<Rightarrow> failure + unit" where
  "create_standard_planning_prompt env td =
     (case personalization_section env of
        Inl e \<Rightarrow> Inl e
      | Inr u \<Rightarrow>
     (case float_div_int (Finite (budget td)) (num_days td) of
        Inl e \<Rightarrow> Inl e
      | Inr per_day \<Rightarrow>
     (case float_div_int (Finite (budget td)) (num_days td * num_people td) of
        Inl e \<Rightarrow> Inl e
      | Inr per_person_per_day \<Rightarrow> Inr ())))"

text \<open>Lines 2525-2536: the master prompt for the verdict.\<close>

definition master_prompt :: "collaborators \<Rightarrow> trip_details \<Rightarrow> verdict \<Rightarrow> failure + unit" where
  "master_prompt env td v =
     (if is_budget_sufficient v then create_standard_planning_prompt env td else Inr ())"

text \<open>Lines 2645-2650: the slots returned with the plan.\<close>

definition planned_details :: "trip_details \<Rightarrow> verdict \<Rightarrow> details_dict" where
  "planned_details td v =
     (model_dump td)
       \<lparr> get_original_destination :=
           (if \<not> is_budget_sufficient v then Some (destination td) else None),
         get_was_budget_insufficient := Some (\<not> is_budget_sufficient v) \<rparr>"

definition plan_trip_from_prompt ::
  "collaborators \<Rightarrow> rat \<Rightarrow> rat \<Rightarrow> cache_state \<Rightarrow> details_dict option
     \<Rightarrow> (failure + trip_details) \<Rightarrow> response \<times> cache_state \<times> ext_call list" where
  "plan_trip_from_prompt env t_read t_write c previous_extraction extraction =
     (case extraction of
        Inl e \<Rightarrow> (ExtractionFailed, c, [])
      | Inr extracted \<Rightarrow>
          (let td = merged_slots previous_extraction extracted
           in if missing_fields td \<noteq> []
              then (NeedMoreInformation (missing_fields td) (model_dump td), c, [])
              else
                (case research_phase env t_read t_write c (destination td) of
                   (Inl e, c', calls) \<Rightarrow> (PlanningFailed, c', calls)
                 | (Inr research, c', calls) \<Rightarrow>
                     (case budget_validation env research td of
                        (v, calls') \<Rightarrow>
                          (case master_prompt env td v of
                             Inl e \<Rightarrow> (PlanningFailed, c', calls @ calls')
                           | Inr prompt \<Rightarrow>
                          (case agent_executor env (select_strategy v) td research of
                             Inl e \<Rightarrow>
                               (PlanningFailed, c',
                                calls @ calls' @ [PlanningCall (select_strategy v)])
                           | Inr final_plan \<Rightarrow>
                               (TripPlanGenerated final_plan (planned_details td v) research, c',
                                calls @ calls' @ [PlanningCall (select_strategy v)])))))))"


section \<open>Example inputs\<close>

text \<open>A first turn that lacks only the start date.\<close>

definition slots_no_start_date :: trip_details where
  "slots_no_start_date =
     \<lparr> origin_city = ''Mumbai'', destination = ''Goa'', num_days = 5, num_people = 2,
       budget = 40000, interests = None, start_date = None \<rparr>"

text \<open>
  The slots kept after an insufficient verdict for Goa, with Ladakh as the destination in
  play, and a new turn that states only a budget of 60000.
\<close>

definition prior_ladakh :: details_dict where
  "prior_ladakh =
     \<lparr> get_origin_city = None, get_destination = Some ''Ladakh'', get_num_days = None,
       get_num_people = None, get_budget = Some 40000, get_interests = None,
       get_start_date = None, get_original_destination = Some ''Goa'',
       get_was_budget_insufficient = Some True \<rparr>"

definition turn_budget_60000 :: trip_details where
  "turn_budget_60000 =
     \<lparr> origin_city = ''Not specified'', destination = ''Not specified'', num_days = 0,
       num_people = 1, budget = 60000, interests = None, start_date = None \<rparr>"

text \<open>Complete previous slots, and a new turn whose origin is extracted as "anywhere".\<close>

definition prior_complete :: details_dict where
  "prior_complete =
     \<lparr> get_origin_city = Some ''Mumbai'', get_destination = Some ''Goa'',
       get_num_days = Some 5, get_num_people = Some 2, get_budget = Some 40000,
       get_interests = None, get_start_date = Some ''2025-12-20'',
       get_original_destination = None, get_was_budget_insufficient = None \<rparr>"

definition turn_anywhere :: trip_details where
  "turn_anywhere =
     \<lparr> origin_city = ''anywhere'', destination = ''Not specified'', num_days = 0,
       num_people = 1, budget = 0, interests = None, start_date = None \<rparr>"

text \<open>
  Collaborators that all answer, with a transport figure of 8000, and a profile whose
  personalization section is built without failure.
\<close>

definition research_3000 :: research_data where
  "research_3000 =
     \<lparr> minimum_budget = ascii ''EXTRACTED MINIMUM: '' @ [rupee] @ ascii ''3000'',
       travel_advisory = [], weather = [], document_info = [] \<rparr>"

definition env_answering :: collaborators where
  "env_answering =
     \<lparr> run_research_parallel = (\<lambda>dest. Inr research_3000),
       estimate_transport_cost = (\<lambda>origin dest n. Inr 8000),
       estimate_transport_fallback = (\<lambda>origin dest n. Inr 6000),
       agent_executor = (\<lambda>s td research. Inr ''plan''),
       personalization_section = Inr () \<rparr>"

text \<open>Complete slots for five days in Goa for two, with the budget left open.\<close>

definition slots_goa :: "rat \<Rightarrow> trip_details" where
  "slots_goa b =
     \<lparr> origin_city = ''Mumbai'', destination = ''Goa'', num_days = 5, num_people = 2,
       budget = b, interests = None, start_date = Some ''2025-12-20'' \<rparr>"

text \<open>The same slots with nobody travelling, and with a sentinel string as the start date.\<close>

definition slots_nobody :: trip_details where
  "slots_nobody = (slots_goa 5000)\<lparr>num_people := 0\<rparr>"

definition slots_sentinel_date :: trip_details where
  "slots_sentinel_date = (slots_goa 50000)\<lparr>start_date := Some ''Not specified''\<rparr>"

text \<open>Research texts whose labelled minimum is zero, and 2999.\<close>

definition research_zero :: research_data where
  "research_zero =
     \<lparr> minimum_budget = ascii ''EXTRACTED MINIMUM: '' @ [rupee] @ ascii ''0'',
       travel_advisory = [], weather = [], document_info = [] \<rparr>"

definition research_2999 :: research_data where
  "research_2999 =
     \<lparr> minimum_budget = ascii ''EXTRACTED MINIMUM: '' @ [rupee] @ ascii ''2999'',
       travel_advisory = [], weather = [], document_info = [] \<rparr>"

text \<open>Collaborators whose primary transport estimator fails, and whose both estimators fail.\<close>

definition env_fallback_only :: collaborators where
  "env_fallback_only =
     env_answering\<lparr> estimate_transport_cost := (\<lambda>origin dest n. Inl CollaboratorError) \<rparr>"

definition env_no_transport :: collaborators where
  "env_no_transport =
     env_answering
       \<lparr> estimate_transport_cost := (\<lambda>origin dest n. Inl CollaboratorError),
         estimate_transport_fallback := (\<lambda>origin dest n. Inl CollaboratorError) \<rparr>"

text \<open>
  Research texts without the labelled minimum: one names 500 rupees and 50 dollars, one
  500 and 9000 rupees, one 200 dollars, one 50.00 dollars; and a text with the labelled
  minimum 3000 in Devanagari digits.
\<close>

definition text_rupee_500_dollar_50 :: ustr where
  "text_rupee_500_dollar_50 = [rupee] @ ascii ''500 for a meal and $50 per day''"

definition text_rupee_500_9000 :: ustr where
  "text_rupee_500_9000 = [rupee] @ ascii ''500 for a meal, '' @ [rupee] @ ascii ''9000 per day''"

definition text_dollar_200 :: ustr where
  "text_dollar_200 = ascii ''about $200 per day''"

definition text_dollar_50_00 :: ustr where
  "text_dollar_50_00 = ascii ''costs $50.00 per day''"

definition text_devanagari_3000 :: ustr where
  "text_devanagari_3000 = ascii ''EXTRACTED MINIMUM: '' @ [rupee, 2409, 2406, 2406, 2406]"


section \<open>Evaluation rules\<close>

lemma lower_simps: "lower [] = []" "lower (c # cs) = lower_char c # lower cs"
  by (simp_all add: lower_def)

lemma lower_empty_iff: "lower s = [] \<longleftrightarrow> s = []"
  by (simp add: lower_def)

lemmas merge_defs =
  merge_def merge_origin_city_def merge_destination_def merge_num_days_def
  merge_num_people_def merge_budget_def merge_interests_def merge_start_date_def

lemmas py_defs =
  truthy_str_def truthy_int_def truthy_num_def str_of_def int_of_opt_def num_of_def

lemmas parse_eval =
  parse_min_daily_def choose_min_daily_def ascii_def rupee_def match_extracted_def
  starts_with_def extracted_marker_def is_rupee_mark_def is_dollar_mark_def
  match_amount_def is_space_def is_digit_def digit_value_def decimal_zeros_def
  digits_value_def int_of_digits_def

lemma parse_3000: "parse_min_daily (minimum_budget research_3000) = Inr 3000"
  by (simp add: research_3000_def parse_eval)

lemma parse_zero: "parse_min_daily (minimum_budget research_zero) = Inr 0"
  by (simp add: research_zero_def parse_eval)

lemma parse_2999: "parse_min_daily (minimum_budget research_2999) = Inr 2999"
  by (simp add: research_2999_def parse_eval)

lemma transport_answering:
  "transport_step env_answering td =
     (Inr 8000, [TransportCall (origin_city td) (destination td) (num_people td)])"
  by (simp add: transport_step_def env_answering_def)


section \<open>Rounding to a double\<close>

lemma pow2_pos: "0 < pow2 k"
  by (simp add: pow2_def)

lemma pow2_ge_one: "0 \<le> k \<Longrightarrow> 1 \<le> pow2 k"
  by (simp add: pow2_def)

lemma pow2_le_one: "k \<le> 0 \<Longrightarrow> pow2 k \<le> 1"
  by (cases "k = 0") (simp_all add: pow2_def divide_le_eq_1)

lemma pow2_simps:
  "pow2 0 = 1" "pow2 1 = 2" "pow2 (- 1) = 1 / 2"
  "pow2 (numeral n) = 2 ^ numeral n" "pow2 (- numeral n) = 1 / 2 ^ numeral n"
  by (simp_all add: pow2_def)

text \<open>The exponent is the one that brackets the value.\<close>

lemma ilog2_eqI:
  assumes "pow2 e \<le> a" and "a < pow2 (e + 1)"
  shows "ilog2 a = e"
proof (cases "1 \<le> a")
  case True
  have e0: "0 \<le> e"
  proof (rule ccontr)
    assume "\<not> 0 \<le> e"
    then have "pow2 (e + 1) \<le> 1" by (intro pow2_le_one) simp
    with assms(2) True show False by simp
  qed
  let ?n = "nat \<lfloor>a\<rfloor>"
  from True have fl: "1 \<le> \<lfloor>a\<rfloor>" by simp
  then have nn: "int ?n = \<lfloor>a\<rfloor>" by simp
  from assms(1) e0 have "(2::rat) ^ nat e \<le> a" by (simp add: pow2_def)
  then have "(2::int) ^ nat e \<le> \<lfloor>a\<rfloor>" by (simp add: le_floor_iff)
  then have "int (2 ^ nat e) \<le> int ?n" by (simp only: nn of_nat_power of_nat_numeral)
  then have lo: "(2::nat) ^ nat e \<le> ?n" by (simp only: of_nat_le_iff)
  from assms(2) e0 have "a < (2::rat) ^ nat (e + 1)" by (simp add: pow2_def)
  then have "\<lfloor>a\<rfloor> < (2::int) ^ nat (e + 1)" by (simp add: floor_less_iff)
  then have "int ?n < int (2 ^ nat (e + 1))" by (simp only: nn of_nat_power of_nat_numeral)
  then have hi: "?n < (2::nat) ^ nat (e + 1)" by (simp only: of_nat_less_iff)
  have "floorlog 2 ?n \<le> nat (e + 1)" using hi by (intro floorlog_leI) auto
  moreover have "Suc (nat e) \<le> floorlog 2 ?n" using lo by (intro floorlog_ge_SucI) auto
  moreover have "nat (e + 1) = Suc (nat e)" using e0 by (simp add: nat_add_distrib)
  ultimately have "floorlog 2 ?n = Suc (nat e)" by simp
  with True e0 show ?thesis by (simp add: ilog2_def)
next
  case False
  then have a1: "a < 1" by simp
  have apos: "0 < a" using pow2_pos [of e] assms(1) by (rule less_le_trans)
  have eneg: "e < 0"
  proof (rule ccontr)
    assume "\<not> e < 0"
    then have "1 \<le> pow2 e" by (intro pow2_ge_one) simp
    with assms(1) a1 show False by simp
  qed
  define k where "k = nat (- e)"
  have k1: "1 \<le> k" and ek: "e = - int k" using eneg by (auto simp: k_def)
  let ?y = "1 / a"
  let ?n = "nat \<lceil>?y\<rceil>"
  have ypos: "0 < ?y" using apos by simp
  then have "of_int 0 < ?y" by simp
  then have cpos: "0 < \<lceil>?y\<rceil>" by (simp only: less_ceiling_iff)
  then have "0 \<le> \<lceil>?y\<rceil>" by (rule less_imp_le)
  then have nn: "int ?n = \<lceil>?y\<rceil>" by (rule nat_0_le)
  from assms(1) ek k1 have "1 / 2 ^ k \<le> a" by (simp add: pow2_def)
  then have "?y \<le> 2 ^ k" using apos by (simp add: field_simps)
  then have "\<lceil>?y\<rceil> \<le> (2::int) ^ k" by (simp add: ceiling_le_iff)
  then have "int ?n \<le> int (2 ^ k)" by (simp only: nn of_nat_power of_nat_numeral)
  then have up: "?n \<le> (2::nat) ^ k" by (simp only: of_nat_le_iff)
  have "a < 1 / 2 ^ (k - 1)"
  proof (cases "k = 1")
    case True
    with a1 show ?thesis by simp
  next
    case k2: False
    with k1 ek have "e + 1 < 0" by simp
    moreover have "nat (- (e + 1)) = k - 1" using ek k1 by simp
    ultimately show ?thesis using assms(2) by (simp add: pow2_def)
  qed
  then have "2 ^ (k - 1) < ?y" using apos by (simp add: field_simps)
  then have "(2::int) ^ (k - 1) < \<lceil>?y\<rceil>" by (simp add: less_ceiling_iff)
  then have "int (2 ^ (k - 1)) < int ?n" by (simp only: nn of_nat_power of_nat_numeral)
  then have "(2::nat) ^ (k - 1) < ?n" by (simp only: of_nat_less_iff)
  then have lt2: "2 * (2::nat) ^ (k - 1) < 2 * ?n" by (simp only: mult_less_cancel1) simp
  have eq2: "2 * (2::nat) ^ (k - 1) = 2 ^ k" using k1 by (cases k) auto
  have "(2::nat) ^ k < 2 * ?n" using lt2 unfolding eq2 .
  with up have "ceillog2 ?n = k" by (rule ceillog2_eqI)
  with False ek show ?thesis by (simp add: ilog2_def)
qed

lemma round_half_even_near:
  assumes "\<bar>y - of_int n\<bar> < 1 / 2"
  shows "round_half_even y = n"
proof (cases "of_int n \<le> y")
  case True
  with assms have "\<lfloor>y\<rfloor> = n" by (intro floor_unique) auto
  with True assms show ?thesis by (simp add: round_half_even_def Let_def)
next
  case False
  with assms have f: "\<lfloor>y\<rfloor> = n - 1" by (intro floor_unique) auto
  from False assms have "1 / 2 < y - of_int (n - 1)" by simp
  with f show ?thesis by (simp add: round_half_even_def Let_def)
qed

text \<open>
  A value with a normal exponent \<open>e\<close> rounds to \<open>n * 2^(e-52)\<close> when \<open>n\<close> is the integer
  within a half of the value scaled by \<open>2^(52-e)\<close>.
\<close>

lemma round_to_double_near:
  assumes "x \<noteq> 0" and "pow2 e \<le> \<bar>x\<bar>" and "\<bar>x\<bar> < pow2 (e + 1)" and "- 1022 \<le> e"
    and "\<bar>x / pow2 (e - 52) - of_int n\<bar> < 1 / 2"
    and "\<bar>of_int n * pow2 (e - 52)\<bar> < pow2 1024"
  shows "round_to_double x = Finite (of_int n * pow2 (e - 52))"
proof -
  have "ilog2 \<bar>x\<bar> = e" using assms(2,3) by (rule ilog2_eqI)
  moreover have "max e (- 1022) = e" using assms(4) by simp
  moreover have "round_half_even (x / pow2 (e - 52)) = n"
    using assms(5) by (rule round_half_even_near)
  moreover have "\<not> pow2 1024 \<le> of_int n * pow2 (e - 52)"
    and "\<not> of_int n * pow2 (e - 52) \<le> - pow2 1024"
    using assms(6) by auto
  ultimately show ?thesis
    using assms(1) by (simp add: round_to_double_def Let_def)
qed

text \<open>An integer of at most 53 bits is a double.\<close>

lemma round_to_double_int:
  assumes "2 ^ k \<le> \<bar>i\<bar>" and "\<bar>i\<bar> < 2 ^ Suc k" and "k \<le> 52"
  shows "round_to_double (of_int i) = Finite (of_int i)"
proof -
  let ?x = "of_int i :: rat"
  have p: "pow2 (int k - 52) = 1 / 2 ^ (52 - k)"
    using assms(3) by (cases "k = 52") (simp_all add: pow2_def)
  have i0: "i \<noteq> 0" using assms(1) by auto
  have a: "pow2 (int k) \<le> \<bar>?x\<bar>"
  proof -
    have "(of_int (2 ^ k) :: rat) \<le> of_int \<bar>i\<bar>" using assms(1) by (simp only: of_int_le_iff)
    then show ?thesis by (simp add: pow2_def)
  qed
  have b': "\<bar>?x\<bar> < 2 ^ Suc k"
  proof -
    have "(of_int \<bar>i\<bar> :: rat) < of_int (2 ^ Suc k)" using assms(2) by (simp only: of_int_less_iff)
    then show ?thesis by simp
  qed
  have b: "\<bar>?x\<bar> < pow2 (int k + 1)"
  proof -
    have "nat (int k + 1) = Suc k" by simp
    with b' show ?thesis by (simp add: pow2_def)
  qed
  have c: "\<bar>?x / pow2 (int k - 52) - of_int (i * 2 ^ (52 - k))\<bar> < 1 / 2"
    by (simp add: p)
  have v: "of_int (i * 2 ^ (52 - k)) * pow2 (int k - 52) = ?x"
    by (simp add: p)
  have "(2::rat) ^ Suc k \<le> 2 ^ 1024" using assms(3) by (intro power_increasing) auto
  with b' have "\<bar>?x\<bar> < 2 ^ 1024" by (rule less_le_trans)
  moreover have "pow2 1024 = 2 ^ 1024" by (simp add: pow2_def)
  ultimately have d: "\<bar>of_int (i * 2 ^ (52 - k)) * pow2 (int k - 52)\<bar> < pow2 1024"
    by (simp only: v)
  have "round_to_double ?x = Finite (of_int (i * 2 ^ (52 - k)) * pow2 (int k - 52))"
    using i0 a b c d by (intro round_to_double_near) auto
  then show ?thesis by (simp only: v)
qed

lemma py_int_to_float_int:
  assumes "2 ^ k \<le> \<bar>i\<bar>" and "\<bar>i\<bar> < 2 ^ Suc k" and "k \<le> 52"
  shows "py_int_to_float i = Inr (Finite (of_int i))"
  using round_to_double_int [OF assms] by (simp add: py_int_to_float_def)

lemma py_int_to_float_0: "py_int_to_float 0 = Inr (Finite 0)"
  by (simp add: py_int_to_float_def round_to_double_def)

text \<open>Division by the int 0 raises.\<close>

lemma float_div_int_zero: "float_div_int x 0 = Inl ZeroDivisionError"
  by (simp add: float_div_int_def py_int_to_float_0 fl_div_def)

lemma float_literals:
  "float_1_2 = Finite (5404319552844595 / 4503599627370496)"
  "float_1_3 = Finite (5854679515581645 / 4503599627370496)"
  "float_2_5 = Finite (5 / 2)"
  using round_to_double_near [of "6 / 5" 0 5404319552844595]
    round_to_double_near [of "13 / 10" 0 5854679515581645]
    round_to_double_near [of "5 / 2" 1 5629499534213120]
  by (simp_all add: float_1_2_def float_1_3_def float_2_5_def pow2_simps)

lemma int_floats:
  "py_int_to_float 2 = Inr (Finite 2)"
  "py_int_to_float 5 = Inr (Finite 5)"
  "py_int_to_float 10 = Inr (Finite 10)"
  "py_int_to_float 2999 = Inr (Finite 2999)"
  "py_int_to_float 3000 = Inr (Finite 3000)"
  "py_int_to_float 29990 = Inr (Finite 29990)"
  "py_int_to_float 30000 = Inr (Finite 30000)"
  using py_int_to_float_int [of 1 2] py_int_to_float_int [of 2 5] py_int_to_float_int [of 3 10]
    py_int_to_float_int [of 11 2999] py_int_to_float_int [of 11 3000]
    py_int_to_float_int [of 14 29990] py_int_to_float_int [of 14 30000]
  by simp_all

lemma whole_doubles:
  "round_to_double 500 = Finite 500"
  "round_to_double 2500 = Finite 2500"
  "round_to_double 3000 = Finite 3000"
  "round_to_double 3900 = Finite 3900"
  "round_to_double 4000 = Finite 4000"
  "round_to_double 4400 = Finite 4400"
  "round_to_double 5000 = Finite 5000"
  "round_to_double 5001 = Finite 5001"
  "round_to_double 7500 = Finite 7500"
  "round_to_double 8000 = Finite 8000"
  "round_to_double 19500 = Finite 19500"
  "round_to_double 20000 = Finite 20000"
  "round_to_double 22000 = Finite 22000"
  "round_to_double 25000 = Finite 25000"
  "round_to_double 31000 = Finite 31000"
  "round_to_double 36000 = Finite 36000"
  "round_to_double 37500 = Finite 37500"
  "round_to_double 43988 = Finite 43988"
  "round_to_double 44000 = Finite 44000"
  using round_to_double_int [of 8 500] round_to_double_int [of 11 2500]
    round_to_double_int [of 11 3000] round_to_double_int [of 11 3900]
    round_to_double_int [of 11 4000] round_to_double_int [of 12 4400]
    round_to_double_int [of 12 5000] round_to_double_int [of 12 5001]
    round_to_double_int [of 12 7500] round_to_double_int [of 12 8000]
    round_to_double_int [of 14 19500] round_to_double_int [of 14 20000]
    round_to_double_int [of 14 22000] round_to_double_int [of 14 25000]
    round_to_double_int [of 14 31000] round_to_double_int [of 15 36000]
    round_to_double_int [of 15 37500] round_to_double_int [of 15 43988]
    round_to_double_int [of 15 44000]
  by simp_all

lemma round_zero: "round_to_double 0 = Finite 0"
  by (simp add: round_to_double_def)

text \<open>
  The operations of the examples. The products with 1.2 and 1.3 are products with the
  doubles nearest to them: \<open>30000 * 1.2\<close> and \<open>3000 * 1.3\<close> round to 36000 and 3900, while
  \<open>2999 * 1.3\<close> rounds to a double above 3898.7, and \<open>38987 / 2 / 5\<close> to the one below it.
\<close>

lemma float_div_int_nonzero:
  assumes "py_int_to_float n = Inr (Finite d)" and "d \<noteq> 0"
  shows "float_div_int x n = Inr (fl_quot x (Finite d))"
  using assms by (simp add: float_div_int_def fl_div_def)

lemma ratio_defined:
  "float_div_int x 2999 = Inr (fl_quot x (Finite 2999))"
  "float_div_int x 3000 = Inr (fl_quot x (Finite 3000))"
  by (simp_all add: float_div_int_nonzero int_floats)

lemma quotients:
  "float_div_int (Finite 5000) 2 = Inr (Finite 2500)"
  "float_div_int (Finite 2500) 5 = Inr (Finite 500)"
  "float_div_int (Finite 39000) 2 = Inr (Finite 19500)"
  "float_div_int (Finite 19500) 5 = Inr (Finite 3900)"
  "float_div_int (Finite 40000) 2 = Inr (Finite 20000)"
  "float_div_int (Finite 20000) 5 = Inr (Finite 4000)"
  "float_div_int (Finite 44000) 2 = Inr (Finite 22000)"
  "float_div_int (Finite 22000) 5 = Inr (Finite 4400)"
  "float_div_int (Finite 50000) 2 = Inr (Finite 25000)"
  "float_div_int (Finite 25000) 5 = Inr (Finite 5000)"
  "float_div_int (Finite 75000) 2 = Inr (Finite 37500)"
  "float_div_int (Finite 37500) 5 = Inr (Finite 7500)"
  by (simp_all add: float_div_int_def int_floats fl_div_def fl_quot_def whole_doubles)

lemma quotients_38987:
  "float_div_int (Finite 38987) 2 = Inr (Finite (38987 / 2))"
  "float_div_int (Finite (38987 / 2)) 5 = Inr (Finite (4286665983210291 / 1099511627776))"
proof -
  have "round_to_double (38987 / 2) = Finite (38987 / 2)"
    using round_to_double_near [of "38987 / 2" 14 5358332479012864]
    by (simp add: pow2_simps)
  then show "float_div_int (Finite 38987) 2 = Inr (Finite (38987 / 2))"
    by (simp add: float_div_int_def int_floats fl_div_def fl_quot_def)
  have "round_to_double (38987 / 2 / 5) = Finite (4286665983210291 / 1099511627776)"
    using round_to_double_near [of "38987 / 2 / 5" 11 8573331966420582]
    by (simp add: pow2_simps)
  then show "float_div_int (Finite (38987 / 2)) 5 =
      Inr (Finite (4286665983210291 / 1099511627776))"
    by (simp add: float_div_int_def int_floats fl_div_def fl_quot_def)
qed

lemma products_1_2:
  "int_mul_float 30000 float_1_2 = Inr (Finite 36000)"
  "int_mul_float 29990 float_1_2 = Inr (Finite 35988)"
proof -
  have "round_to_double (30000 * (5404319552844595 / 4503599627370496)) = Finite 36000"
    using round_to_double_near
      [of "30000 * (5404319552844595 / 4503599627370496)" 15 4947802324992000]
    by (simp add: pow2_simps)
  then show "int_mul_float 30000 float_1_2 = Inr (Finite 36000)"
    by (simp add: int_mul_float_def int_floats float_literals fl_mul_def)
  have "round_to_double (29990 * (5404319552844595 / 4503599627370496)) = Finite 35988"
    using round_to_double_near
      [of "29990 * (5404319552844595 / 4503599627370496)" 15 4946153057550336]
    by (simp add: pow2_simps)
  then show "int_mul_float 29990 float_1_2 = Inr (Finite 35988)"
    by (simp add: int_mul_float_def int_floats float_literals fl_mul_def)
qed

lemma products_1_3:
  "int_mul_float 3000 float_1_3 = Inr (Finite 3900)"
  "int_mul_float 2999 float_1_3 = Inr (Finite (8573331966420583 / 2199023255552))"
proof -
  have "round_to_double (3000 * (5854679515581645 / 4503599627370496)) = Finite 3900"
    using round_to_double_near
      [of "3000 * (5854679515581645 / 4503599627370496)" 11 8576190696652800]
    by (simp add: pow2_simps)
  then show "int_mul_float 3000 float_1_3 = Inr (Finite 3900)"
    by (simp add: int_mul_float_def int_floats float_literals fl_mul_def)
  have "round_to_double (2999 * (5854679515581645 / 4503599627370496)) =
      Finite (8573331966420583 / 2199023255552)"
    using round_to_double_near
      [of "2999 * (5854679515581645 / 4503599627370496)" 11 8573331966420583]
    by (simp add: pow2_simps)
  then show "int_mul_float 2999 float_1_3 = Inr (Finite (8573331966420583 / 2199023255552))"
    by (simp add: int_mul_float_def int_floats float_literals fl_mul_def)
qed

lemma products_2_5:
  "int_mul_float 3000 float_2_5 = Inr (Finite 7500)"
  by (simp add: int_mul_float_def int_floats float_literals fl_mul_def whole_doubles)

lemma products_zero:
  "int_mul_float 0 float_1_2 = Inr (Finite 0)"
  "int_mul_float 0 float_1_3 = Inr (Finite 0)"
  "int_mul_float 0 float_2_5 = Inr (Finite 0)"
  by (simp_all add: int_mul_float_def py_int_to_float_0 float_literals fl_mul_def round_zero)

lemma sums:
  "fl_add (Finite 36000) (Finite 0) = Finite 36000"
  "fl_add (Finite 36000) (Finite 8000) = Finite 44000"
  "fl_add (Finite 35988) (Finite 8000) = Finite 43988"
  "fl_add (Finite 0) (Finite 8000) = Finite 8000"
  "fl_sub (Finite 36000) (Finite 5000) = Finite 31000"
  "fl_sub (Finite 44000) (Finite 39000) = Finite 5000"
  "fl_sub (Finite 44000) (Finite 40000) = Finite 4000"
  "fl_sub (Finite 43988) (Finite 38987) = Finite 5001"
  "fl_sub (Finite 8000) (Finite 5000) = Finite 3000"
  by (simp_all add: fl_add_def fl_sub_def fl_neg_def whole_doubles)

lemmas float_eval =
  feasibility_arith_def classify_tier_def slots_goa_def quotients quotients_38987
  products_1_2 products_1_3 products_2_5 products_zero sums ratio_defined
  float_div_int_zero fl_ge_def fl_less_def

lemma feasibility_arith_examples:
  "feasibility_arith 3000 (slots_goa 5000) 0 =
     Inr (Finite 36000,
          \<lparr> is_budget_sufficient = False, shortfall = Finite 31000,
            budget_tier = BudgetFriendly \<rparr>)"
  "feasibility_arith 3000 (slots_goa 40000) 8000 =
     Inr (Finite 44000,
          \<lparr> is_budget_sufficient = False, shortfall = Finite 4000, budget_tier = Moderate \<rparr>)"
  "feasibility_arith 3000 (slots_goa 44000) 8000 =
     Inr (Finite 44000,
          \<lparr> is_budget_sufficient = True, shortfall = Finite 0, budget_tier = Moderate \<rparr>)"
  "feasibility_arith 3000 (slots_goa 50000) 8000 =
     Inr (Finite 44000,
          \<lparr> is_budget_sufficient = True, shortfall = Finite 0, budget_tier = Moderate \<rparr>)"
  "feasibility_arith 3000 (slots_goa 39000) 8000 =
     Inr (Finite 44000,
          \<lparr> is_budget_sufficient = False, shortfall = Finite 5000, budget_tier = Moderate \<rparr>)"
  "feasibility_arith 3000 (slots_goa 75000) 8000 =
     Inr (Finite 44000,
          \<lparr> is_budget_sufficient = True, shortfall = Finite 0, budget_tier = Luxury \<rparr>)"
  "feasibility_arith 2999 (slots_goa 38987) 8000 =
     Inr (Finite 43988,
          \<lparr> is_budget_sufficient = False, shortfall = Finite 5001,
            budget_tier = BudgetFriendly \<rparr>)"
  "feasibility_arith 0 (slots_goa 5000) 8000 = Inl ZeroDivisionError"
  by (simp_all add: float_eval)


section \<open>The slot merge\<close>

text \<open>
  Numbers are never lost by the merge: a positive previous \<open>num_days\<close>, \<open>num_people\<close> or
  \<open>budget\<close> leaves a positive merged value.
\<close>

lemma merge_keeps_known_numbers:
  "get_num_days prev = Some d \<Longrightarrow> 0 < d \<Longrightarrow> 0 < num_days (merge prev td)"
  "get_num_people prev = Some n \<Longrightarrow> 0 < n \<Longrightarrow> 0 < num_people (merge prev td)"
  "get_budget prev = Some b \<Longrightarrow> 0 < b \<Longrightarrow> 0 < budget (merge prev td)"
  by (auto simp: merge_defs py_defs)

text \<open>
  Claim C3 (a field known in the previous slots is known in the merged slots) fails on the
  code for the text slots. The merge treats only "not specified", "unknown", "n/a" and the
  empty string as unknown, while the completeness check that follows also treats "anywhere"
  so. With Mumbai as the previous origin and "anywhere" as the new one, the merged origin
  is "anywhere", and the completeness check asks for the origin city again.
\<close>

theorem merge_anywhere_downgrades_origin:
  "\<not> spec_sentinel (str_of (get_origin_city prior_complete)) \<and>
   missing_fields (merge prior_complete (turn_anywhere\<lparr>origin_city := ''Not specified''\<rparr>)) = [] \<and>
   origin_city (merge prior_complete turn_anywhere) = ''anywhere'' \<and>
   spec_sentinel (origin_city (merge prior_complete turn_anywhere)) \<and>
   missing_fields (merge prior_complete turn_anywhere) = [''origin city'']"
  by (simp add: prior_complete_def turn_anywhere_def merge_defs py_defs merge_sentinels_def
      validation_sentinels_def missing_fields_def spec_sentinel_def lower_simps lower_char_def)

text \<open>
  Claim C4: when the new budget is known and greater than the previous known budget, the
  merged slots carry the new budget; and when the previous slots hold a non-empty
  \<open>original_destination\<close>, the merged destination is that one, and the merged slots hold no
  \<open>original_destination\<close> any more.
\<close>

theorem budget_increase_restores_destination:
  assumes "0 < budget new" and "get_budget prev = Some old" and "0 < old"
    and "old < budget new"
  shows "budget (merge prev new) = budget new \<and>
         (\<forall>od. get_original_destination prev = Some od \<and> od \<noteq> [] \<longrightarrow>
            destination (merge prev new) = od \<and>
            get_original_destination (model_dump (merge prev new)) = None)"
  using assms by (simp add: merge_defs py_defs model_dump_def)

theorem budget_increase_restores_destination_witness:
  "0 < budget turn_budget_60000 \<and> get_budget prior_ladakh = Some 40000 \<and>
   (40000 :: rat) < budget turn_budget_60000 \<and>
   get_original_destination prior_ladakh = Some ''Goa'' \<and>
   budget (merge prior_ladakh turn_budget_60000) = 60000 \<and>
   destination (merge prior_ladakh turn_budget_60000) = ''Goa'' \<and>
   get_original_destination (model_dump (merge prior_ladakh turn_budget_60000)) = None"
  using budget_increase_restores_destination [of turn_budget_60000 prior_ladakh 40000]
  by (simp add: prior_ladakh_def turn_budget_60000_def)


section \<open>The completeness check\<close>

text \<open>
  The check of the code is the amended rule: for every field but the start date it is the
  rule of the specification.
\<close>

lemma unknown_simps:
  "amended_unknown td ''origin city'' = spec_sentinel (origin_city td)"
  "amended_unknown td ''destination'' = spec_sentinel (destination td)"
  "amended_unknown td ''duration'' = (num_days td \<le> 0)"
  "amended_unknown td ''budget'' = (budget td \<le> 0)"
  "amended_unknown td ''start date'' = (start_date td = None \<or> start_date td = Some [])"
  "spec_unknown td ''start date'' =
     (case start_date td of None \<Rightarrow> True | Some s \<Rightarrow> spec_sentinel s)"
  by (simp_all add: amended_unknown_def spec_unknown_def)

lemma missing_fields_amended: "missing_fields td = filter (amended_unknown td) required_fields"
proof -
  have a: "(s = [] \<or> lower s \<in> set validation_sentinels) = spec_sentinel s" for s
    by (auto simp: spec_sentinel_def validation_sentinels_def lower_empty_iff)
  have b: "(\<not> truthy_str d) = (d = None \<or> d = Some [])" for d
    by (cases d) (simp_all add: truthy_str_def)
  show ?thesis
    by (simp add: missing_fields_def required_fields_def unknown_simps a b)
qed

lemma amended_unknown_is_spec_unknown:
  assumes "amended_unknown td f"
  shows "spec_unknown td f"
proof (cases "f = ''start date''")
  case True
  with assms have "start_date td = None \<or> start_date td = Some []"
    by (simp add: unknown_simps)
  then have "spec_unknown td ''start date''"
    by (auto simp: unknown_simps spec_sentinel_def lower_simps)
  with True show ?thesis by simp
next
  case False
  with assms show ?thesis by (simp add: amended_unknown_def)
qed

lemma research_phase_first_request:
  "research_phase env_answering 0 0 empty_cache ''Goa'' =
     (Inr research_3000, cache_research empty_cache 0 ''Goa'' research_3000,
      [ResearchCall ''Goa''])"
  by (simp add: research_phase_def get_cached_research_def empty_cache_def env_answering_def)

lemma prompt_divisions:
  "float_div_int x 5 = Inr (fl_quot x (Finite 5))"
  "float_div_int x 10 = Inr (fl_quot x (Finite 10))"
  by (simp_all add: float_div_int_nonzero int_floats)

lemma budget_validation_sentinel_date:
  "budget_validation env_answering research_3000 slots_sentinel_date =
     (\<lparr> is_budget_sufficient = True, shortfall = Finite 0, budget_tier = Moderate \<rparr>,
      [TransportCall ''Mumbai'' ''Goa'' 2])"
  by (simp add: budget_validation_def feasibility_try_def parse_3000 transport_answering
      slots_sentinel_date_def float_eval)

lemma master_prompt_sentinel_date:
  "master_prompt env_answering slots_sentinel_date
     \<lparr> is_budget_sufficient = True, shortfall = Finite 0, budget_tier = Moderate \<rparr> = Inr ()"
  by (simp add: master_prompt_def create_standard_planning_prompt_def env_answering_def
      slots_sentinel_date_def slots_goa_def prompt_divisions)

text \<open>
  Claim C7 counts a start date that is a sentinel string as unknown, as the specification
  does for every text slot. The code tests the start date for being absent or empty only.
  With the start date "Not specified" and every other field known, the handler asks for
  nothing: it runs the research, estimates the transport and asks for the plan.
\<close>

theorem sentinel_start_date_counterexample:
  "spec_unknown (merged_slots None slots_sentinel_date) ''start date'' \<and>
   missing_fields (merged_slots None slots_sentinel_date) = [] \<and>
   plan_trip_from_prompt env_answering 0 0 empty_cache None (Inr slots_sentinel_date) =
     (TripPlanGenerated ''plan''
        (planned_details slots_sentinel_date
           \<lparr> is_budget_sufficient = True, shortfall = Finite 0, budget_tier = Moderate \<rparr>)
        research_3000,
      cache_research empty_cache 0 ''Goa'' research_3000,
      [ResearchCall ''Goa'', TransportCall ''Mumbai'' ''Goa'' 2,
       PlanningCall (StandardPlanning Moderate)])"
proof -
  have a: "spec_unknown (merged_slots None slots_sentinel_date) ''start date''"
    by (simp add: spec_unknown_def merged_slots_def slots_sentinel_date_def spec_sentinel_def
        lower_simps lower_char_def)
  have b: "missing_fields slots_sentinel_date = []"
    by (simp add: slots_sentinel_date_def slots_goa_def missing_fields_def
        validation_sentinels_def truthy_str_def lower_simps lower_char_def)
  have d: "destination slots_sentinel_date = ''Goa''"
    by (simp add: slots_sentinel_date_def slots_goa_def)
  have e: "agent_executor env_answering s td r = Inr ''plan''" for s td r
    by (simp add: env_answering_def)
  have "plan_trip_from_prompt env_answering 0 0 empty_cache None (Inr slots_sentinel_date) =
     (TripPlanGenerated ''plan''
        (planned_details slots_sentinel_date
           \<lparr> is_budget_sufficient = True, shortfall = Finite 0, budget_tier = Moderate \<rparr>)
        research_3000,
      cache_research empty_cache 0 ''Goa'' research_3000,
      [ResearchCall ''Goa'', TransportCall ''Mumbai'' ''Goa'' 2,
       PlanningCall (StandardPlanning Moderate)])"
    by (simp add: plan_trip_from_prompt_def merged_slots_def Let_def b d e
        research_phase_first_request budget_validation_sentinel_date
        master_prompt_sentinel_date select_strategy_def)
  with a b show ?thesis by (simp add: merged_slots_def)
qed

text \<open>
  Claim C7 as amended: a start date is unknown when it is absent or empty, the other
  required fields as the specification says. When a required field (origin city,
  destination, duration, budget, start date) of the merged slots is unknown in this sense,
  the handler answers that it needs more information, lists the unknown required fields
  and no others, in the order of the check, calls no collaborator and leaves the cache as
  it was.
\<close>

theorem incomplete_slots_ask_for_missing:
  assumes "f \<in> set required_fields" and "amended_unknown (merged_slots prev extracted) f"
  shows "plan_trip_from_prompt env t_read t_write c prev (Inr extracted) =
           (NeedMoreInformation
              (filter (amended_unknown (merged_slots prev extracted)) required_fields)
              (model_dump (merged_slots prev extracted)), c, [])"
proof -
  let ?td = "merged_slots prev extracted"
  from assms have "filter (amended_unknown ?td) required_fields \<noteq> []"
    by (auto simp: filter_empty_conv)
  then have "missing_fields ?td \<noteq> []"
    by (simp add: missing_fields_amended)
  then show ?thesis
    by (simp add: plan_trip_from_prompt_def Let_def missing_fields_amended)
qed

theorem incomplete_slots_ask_for_missing_witness:
  "''start date'' \<in> set required_fields \<and>
   amended_unknown (merged_slots None slots_no_start_date) ''start date'' \<and>
   plan_trip_from_prompt env_answering 0 0 empty_cache None (Inr slots_no_start_date) =
     (NeedMoreInformation [''start date''] (model_dump slots_no_start_date), empty_cache, [])"
  using incomplete_slots_ask_for_missing
          [of "''start date''" None slots_no_start_date env_answering 0 0 empty_cache]
  by (simp add: required_fields_def amended_unknown_def spec_unknown_def merged_slots_def
      slots_no_start_date_def spec_sentinel_def lower_simps lower_char_def)


section \<open>The research cache\<close>

lemma get_after_cache_same:
  "get_cached_research (cache_research c t0 dest data) t dest =
     (if t - t0 < 3600 then Some data else None)"
  by (simp add: get_cached_research_def cache_research_def
      RESEARCH_CACHE_DURATION_SECONDS_def Let_def)

lemma get_after_cache_other:
  "D \<noteq> d \<Longrightarrow>
   get_cached_research (cache_research c t0 d data) t D = get_cached_research c t D"
  by (simp add: get_cached_research_def cache_research_def split: option.split)

text \<open>
  Claim C8 says that a destination stored under \<open>d\<close> is found under any \<open>D\<close> that equals \<open>d\<close>
  up to letter case. The cache folds no case: research stored for "Goa" is not found
  under "GOA" a few seconds later.
\<close>

theorem cache_key_case_counterexample:
  "lower ''GOA'' = lower ''Goa'' \<and> (10 :: rat) - 0 < 3600 \<and>
   get_cached_research (cache_research empty_cache 0 ''Goa'' research_3000) 10 ''GOA'' = None"
  by (simp add: get_cached_research_def cache_research_def empty_cache_def lower_simps
      lower_char_def)

text \<open>
  Claim C8 as amended: the cache is keyed by the destination text as it is written. Within
  the validity window a read with the very string of the write returns the data written;
  a read with any other string, one that differs only in letter case included, returns
  what it returned before the write.
\<close>

theorem cache_key_exact:
  "(t - t0 < 3600 \<longrightarrow>
      get_cached_research (cache_research c t0 d data) t d = Some data) \<and>
   (D \<noteq> d \<longrightarrow>
      get_cached_research (cache_research c t0 d data) t D = get_cached_research c t D)"
  by (simp add: get_after_cache_same get_after_cache_other)

theorem cache_key_exact_witness:
  "(10 :: rat) - 0 < 3600 \<and>
   get_cached_research (cache_research empty_cache 0 ''Goa'' research_3000) 10 ''Goa''
     = Some research_3000 \<and>
   ''GOA, India'' \<noteq> ''Goa'' \<and>
   get_cached_research (cache_research empty_cache 0 ''Goa'' research_3000) 10 ''GOA, India''
     = get_cached_research empty_cache 10 ''GOA, India''"
  using cache_key_exact [of 10 0 empty_cache "''Goa''" research_3000 "''GOA, India''"]
  by simp

text \<open>
  Claim C9: a read less than 3600 seconds after the write returns the entry; a read 3600
  seconds or more after it returns nothing, and the handler then runs the research tools
  again and, when they answer, stores their result under the destination with the time
  of the new write.
\<close>

theorem cache_expiry:
  "get_cached_research (cache_research c t0 dest data) t dest =
     (if t - t0 < 3600 then Some data else None) \<and>
   (3600 \<le> t - t0 \<longrightarrow>
      research_phase env t t' (cache_research c t0 dest data) dest =
        (case run_research_parallel env dest of
           Inl e \<Rightarrow> (Inl e, cache_research c t0 dest data, [ResearchCall dest])
         | Inr fresh \<Rightarrow>
             (Inr fresh, cache_research (cache_research c t0 dest data) t' dest fresh,
              [ResearchCall dest])))"
  by (simp add: get_after_cache_same research_phase_def)

theorem cache_expiry_witness:
  "get_cached_research (cache_research empty_cache 0 ''Goa'' research_zero) 3599 ''Goa''
     = Some research_zero \<and>
   get_cached_research (cache_research empty_cache 0 ''Goa'' research_zero) 3600 ''Goa''
     = None \<and>
   (3600 :: rat) \<le> 3600 - 0 \<and>
   research_phase env_answering 3600 3601
       (cache_research empty_cache 0 ''Goa'' research_zero) ''Goa'' =
     (Inr research_3000,
      cache_research (cache_research empty_cache 0 ''Goa'' research_zero) 3601 ''Goa''
        research_3000,
      [ResearchCall ''Goa''])"
  using cache_expiry [of empty_cache 0 "''Goa''" research_zero 3599]
    cache_expiry [of empty_cache 0 "''Goa''" research_zero 3600 env_answering 3601]
  by (simp add: env_answering_def)


section \<open>The cost-signal parser\<close>

lemma Min_times_83:
  fixes A :: "nat set"
  assumes "finite A" and "A \<noteq> {}"
  shows "Min ((\<lambda>m. m * 83) ` A) = 83 * Min A"
proof -
  have "mono (\<lambda>m::nat. m * 83)"
    by (rule monoI) simp
  then have "Min A * 83 = Min ((\<lambda>m. m * 83) ` A)"
    using assms by (rule mono_Min_commute)
  then show ?thesis by (simp add: mult.commute)
qed

lemma min_list_map_mult:
  fixes xs :: "nat list"
  assumes "xs \<noteq> []"
  shows "min_list (map (\<lambda>m. m * 83) xs) = 83 * Min (set xs)"
proof -
  from assms have "min_list (map (\<lambda>m. m * 83) xs) = Min (set (map (\<lambda>m. m * 83) xs))"
    by (intro min_list_Min) simp
  also have "\<dots> = Min ((\<lambda>m. m * 83) ` set xs)" by simp
  also from assms have "\<dots> = 83 * Min (set xs)"
    by (intro Min_times_83) simp_all
  finally show ?thesis .
qed

lemma choose_min_daily_chain:
  "choose_min_daily rupees dollars =
     (let plausible = filter (\<lambda>m. 1000 \<le> m \<and> m \<le> 15000) rupees;
          usd = filter (\<lambda>m. 10 \<le> m \<and> m \<le> 200) dollars
      in if plausible \<noteq> [] then Min (set plausible)
         else if rupees = [] \<and> usd \<noteq> [] then 83 * Min (set usd)
         else 2500)"
proof -
  let ?plausible = "filter (\<lambda>m. 1000 \<le> m \<and> m \<le> 15000) rupees"
  let ?usd = "filter (\<lambda>m. 10 \<le> m \<and> m \<le> 200) dollars"
  show ?thesis
  proof (cases "rupees = []")
    case False
    have "?plausible \<noteq> [] \<Longrightarrow> min_list ?plausible = Min (set ?plausible)"
      by (rule min_list_Min)
    with False show ?thesis
      unfolding choose_min_daily_def Let_def by (simp del: set_filter)
  next
    case True
    have "?usd \<noteq> [] \<Longrightarrow> min_list (map (\<lambda>m. m * 83) ?usd) = 83 * Min (set ?usd)"
      by (rule min_list_map_mult)
    moreover have "?usd \<noteq> [] \<Longrightarrow> dollars \<noteq> []" by auto
    ultimately show ?thesis
      using True unfolding choose_min_daily_def Let_def
      by (cases "?usd = []") (simp_all del: set_filter)
  qed
qed

text \<open>
  The bounding example of the specification: of 500 and 9000 rupees, 500 is left out as
  implausible and 9000 is the minimum.
\<close>

lemma parser_bounding_example:
  "findall_amounts is_rupee_mark 5 text_rupee_500_9000 = [500, 9000] \<and>
   parse_min_daily text_rupee_500_9000 = Inr 9000"
  by (simp add: text_rupee_500_9000_def parse_eval)

text \<open>
  The rupee pattern needs no rupee sign: a full stop followed by digits is a match. In a
  text that names 50.00 dollars, the cents after the full stop are a rupee-marked amount
  of 0, which is implausible, and the dollar amount is not looked at.
\<close>

lemma parser_full_stop_example:
  "search_extracted text_dollar_50_00 = None \<and>
   findall_amounts is_rupee_mark 5 text_dollar_50_00 = [0] \<and>
   findall_amounts is_dollar_mark 4 text_dollar_50_00 = [50] \<and>
   parse_min_daily text_dollar_50_00 = Inr 2500"
  by (simp add: text_dollar_50_00_def parse_eval)

text \<open>The digits of the labelled minimum may be any decimal digits, here those of Devanagari.\<close>

lemma parser_devanagari_example:
  "search_extracted text_devanagari_3000 = Some [2409, 2406, 2406, 2406] \<and>
   parse_min_daily text_devanagari_3000 = Inr 3000"
  by (simp add: text_devanagari_3000_def parse_eval)

text \<open>A labelled minimum of more than 4300 digits makes the conversion raise.\<close>

lemma parser_too_many_digits:
  "search_extracted info = Some ds \<Longrightarrow> 4300 < length ds \<Longrightarrow>
   parse_min_daily info = Inl ValueError"
  by (cases info) (simp_all add: parse_min_daily_def int_of_digits_def)

text \<open>
  Claim C5 says that a text whose rupee amounts are all implausible, and which names a
  plausible dollar amount, yields the converted dollar figure, and that the dollar
  amounts pass the same filter as the rupee amounts. In the code the dollar branch is an
  \<open>elif\<close> of the test that rupee-marked amounts exist: a text with 500 rupees and 50 dollars
  (4150 rupees, a plausible amount) yields the default 2500. And the dollar filter is 10 to
  200 dollars before conversion: 200 dollars yield 16600, above 15000.
\<close>

theorem parser_dollar_counterexample:
  "search_extracted text_rupee_500_dollar_50 = None \<and>
   findall_amounts is_rupee_mark 5 text_rupee_500_dollar_50 = [500] \<and>
   findall_amounts is_dollar_mark 4 text_rupee_500_dollar_50 = [50] \<and>
   (1000 :: nat) \<le> 50 * 83 \<and> (50 :: nat) * 83 \<le> 15000 \<and>
   parse_min_daily text_rupee_500_dollar_50 = Inr 2500 \<and>
   search_extracted text_dollar_200 = None \<and>
   findall_amounts is_rupee_mark 5 text_dollar_200 = [] \<and>
   findall_amounts is_dollar_mark 4 text_dollar_200 = [200] \<and>
   parse_min_daily text_dollar_200 = Inr 16600"
  by (simp add: text_rupee_500_dollar_50_def text_dollar_200_def parse_eval)

text \<open>
  Claim C5 as amended. A rupee-marked amount is a run of one to five decimal digits that
  follows, after any whitespace, a rupee sign, a capital R, a small s or a full stop; a
  dollar-marked amount is a run of one to four decimal digits that follows, after any
  whitespace, a dollar sign; both are found from left to right without overlap, and a
  decimal digit is one of any script. The parser takes (1) the number of the first
  labelled minimum when the text has one, and raises \<open>ValueError\<close> when that number has
  more than 4300 digits; (2) otherwise, when rupee-marked amounts between 1000 and 15000
  are found, the least of them; (3) otherwise, when no rupee-marked amount is found at all
  and dollar-marked amounts between 10 and 200 dollars are found, 83 times the least of
  them; (4) otherwise the default 2500, which is also the result when rupee-marked amounts
  are found and none is plausible, whatever dollar amounts the text names.
\<close>

theorem parser_fallback_chain:
  "parse_min_daily info =
     (case search_extracted info of
        Some ds \<Rightarrow> if 4300 < length ds then Inl ValueError else Inr (digits_value ds)
      | None \<Rightarrow>
          Inr (let rupees = findall_amounts is_rupee_mark 5 info;
                   plausible = filter (\<lambda>m. 1000 \<le> m \<and> m \<le> 15000) rupees;
                   usd = filter (\<lambda>m. 10 \<le> m \<and> m \<le> 200)
                           (findall_amounts is_dollar_mark 4 info)
               in if plausible \<noteq> [] then Min (set plausible)
                  else if rupees = [] \<and> usd \<noteq> [] then 83 * Min (set usd)
                  else 2500))"
proof (cases "info = []")
  case True
  then show ?thesis by (simp add: parse_min_daily_def)
next
  case False
  then show ?thesis
    unfolding parse_min_daily_def int_of_digits_def Let_def
    by (simp only: if_True choose_min_daily_chain Let_def simp_thms)
qed


section \<open>The transport step and the exception handler\<close>

text \<open>
  Claim C6 says that when both transport estimators fail, the transport cost counts as zero
  and the verdict is computed from the rest. In the code the failure of the fallback
  leaves the \<open>try\<close> block: the handler sets the verdict to sufficient. With 3000 a day for
  two people and five days and a budget of 5000, a transport cost of zero would give 36000
  required and a shortfall of 31000; the code answers that the budget is sufficient.
\<close>

theorem transport_double_failure_counterexample:
  "estimate_transport_cost env_no_transport ''Mumbai'' ''Goa'' 2 = Inl CollaboratorError \<and>
   estimate_transport_fallback env_no_transport ''Mumbai'' ''Goa'' 2 = Inl CollaboratorError \<and>
   fst (budget_validation env_no_transport research_3000 (slots_goa 5000)) =
     \<lparr> is_budget_sufficient = True, shortfall = Finite 0, budget_tier = Moderate \<rparr> \<and>
   parse_min_daily (minimum_budget research_3000) = Inr 3000 \<and>
   feasibility_arith 3000 (slots_goa 5000) 0 =
     Inr (Finite 36000,
          \<lparr> is_budget_sufficient = False, shortfall = Finite 31000,
            budget_tier = BudgetFriendly \<rparr>)"
proof -
  have "fst (budget_validation env_no_transport research_3000 (slots_goa 5000)) =
      \<lparr> is_budget_sufficient = True, shortfall = Finite 0, budget_tier = Moderate \<rparr>"
    by (simp add: env_no_transport_def env_answering_def parse_3000 budget_validation_def
        feasibility_try_def transport_step_def default_verdict_def)
  then show ?thesis
    by (simp add: env_no_transport_def env_answering_def parse_3000
        feasibility_arith_examples)
qed

text \<open>
  Claim C6 as amended: when the primary estimator returns, its figure is the transport
  total, unchanged, and the fallback is not called; when it fails, the fallback is called
  and its outcome is the outcome of the step; when both fail, no figure is produced, the
  failure stays inside the feasibility check, and the verdict is the default one:
  sufficient, no shortfall, moderate tier. The estimators are called once the daily
  minimum is parsed; when the parsing raises, none is called and the verdict is the
  default one as well.
\<close>

theorem transport_step_outcomes:
  "(estimate_transport_cost env (origin_city td) (destination td) (num_people td) = Inr p \<longrightarrow>
      transport_step env td =
        (Inr p, [TransportCall (origin_city td) (destination td) (num_people td)])) \<and>
   (estimate_transport_cost env (origin_city td) (destination td) (num_people td) = Inl e \<longrightarrow>
      transport_step env td =
        (estimate_transport_fallback env (origin_city td) (destination td) (num_people td),
         [TransportCall (origin_city td) (destination td) (num_people td),
          TransportFallbackCall (origin_city td) (destination td) (num_people td)])) \<and>
   (estimate_transport_cost env (origin_city td) (destination td) (num_people td) = Inl e \<and>
    estimate_transport_fallback env (origin_city td) (destination td) (num_people td) = Inl e'
    \<longrightarrow>
      budget_validation env research td =
        (\<lparr> is_budget_sufficient = True, shortfall = Finite 0, budget_tier = Moderate \<rparr>,
         case parse_min_daily (minimum_budget research) of
           Inl err \<Rightarrow> []
         | Inr estimated_min_daily \<Rightarrow>
             [TransportCall (origin_city td) (destination td) (num_people td),
              TransportFallbackCall (origin_city td) (destination td) (num_people td)]))"
  by (cases "parse_min_daily (minimum_budget research)")
     (simp_all add: transport_step_def budget_validation_def feasibility_try_def
        default_verdict_def)

theorem transport_step_outcomes_witness:
  "estimate_transport_cost env_answering ''Mumbai'' ''Goa'' 2 = Inr 8000 \<and>
   transport_step env_answering (slots_goa 50000) =
     (Inr 8000, [TransportCall ''Mumbai'' ''Goa'' 2]) \<and>
   estimate_transport_cost env_fallback_only ''Mumbai'' ''Goa'' 2 = Inl CollaboratorError \<and>
   transport_step env_fallback_only (slots_goa 50000) =
     (Inr 6000, [TransportCall ''Mumbai'' ''Goa'' 2, TransportFallbackCall ''Mumbai'' ''Goa'' 2]) \<and>
   estimate_transport_fallback env_no_transport ''Mumbai'' ''Goa'' 2 = Inl CollaboratorError \<and>
   budget_validation env_no_transport research_3000 (slots_goa 50000) =
     (\<lparr> is_budget_sufficient = True, shortfall = Finite 0, budget_tier = Moderate \<rparr>,
      [TransportCall ''Mumbai'' ''Goa'' 2, TransportFallbackCall ''Mumbai'' ''Goa'' 2])"
  using transport_step_outcomes
      [where env = env_answering and td = "slots_goa 50000" and p = 8000]
    transport_step_outcomes
      [where env = env_fallback_only and td = "slots_goa 50000" and e = CollaboratorError]
    transport_step_outcomes
      [where env = env_no_transport and td = "slots_goa 50000" and e = CollaboratorError
         and e' = CollaboratorError and research = research_3000]
  by (simp add: env_answering_def env_fallback_only_def env_no_transport_def slots_goa_def
      parse_3000)

text \<open>
  Whatever is raised inside the feasibility check, the verdict is the default one, the
  standard prompt is the one to build, and the slots returned with a plan say that the
  budget was not insufficient.
\<close>

lemma feasibility_failure_defaults:
  assumes "fst (feasibility_try env research td) = Inl e"
  shows "fst (budget_validation env research td) =
           \<lparr> is_budget_sufficient = True, shortfall = Finite 0, budget_tier = Moderate \<rparr> \<and>
         select_strategy (fst (budget_validation env research td)) = StandardPlanning Moderate \<and>
         master_prompt env td (fst (budget_validation env research td)) =
           create_standard_planning_prompt env td \<and>
         get_was_budget_insufficient
           (planned_details td (fst (budget_validation env research td))) = Some False \<and>
         get_original_destination
           (planned_details td (fst (budget_validation env research td))) = None"
  using assms
  by (cases "feasibility_try env research td")
     (simp add: budget_validation_def default_verdict_def select_strategy_def
        planned_details_def master_prompt_def)

text \<open>
  The standard prompt is built when the number of days and the number of days times the
  number of people convert to floats that are not zero, and the personalization section
  raises nothing.
\<close>

lemma standard_prompt_failures:
  "create_standard_planning_prompt env td = Inl e \<longleftrightarrow>
     personalization_section env = Inl e \<or>
     (\<exists>u. personalization_section env = Inr u) \<and>
     (float_div_int (Finite (budget td)) (num_days td) = Inl e \<or>
      (\<exists>d. float_div_int (Finite (budget td)) (num_days td) = Inr d) \<and>
      float_div_int (Finite (budget td)) (num_days td * num_people td) = Inl e)"
  by (auto simp: create_standard_planning_prompt_def split: sum.splits)

lemma missing_fields_nobody: "missing_fields slots_nobody = []"
  by (simp add: slots_nobody_def slots_goa_def missing_fields_def validation_sentinels_def
      truthy_str_def lower_simps lower_char_def)

lemma feasibility_try_nobody:
  "feasibility_try env_answering research_3000 slots_nobody =
     (Inl ZeroDivisionError, [TransportCall ''Mumbai'' ''Goa'' 0])"
  by (simp add: feasibility_try_def parse_3000 transport_answering feasibility_arith_def
      slots_nobody_def slots_goa_def float_div_int_zero)

lemma standard_prompt_nobody:
  "create_standard_planning_prompt env_answering slots_nobody = Inl ZeroDivisionError"
  by (simp add: create_standard_planning_prompt_def env_answering_def slots_nobody_def
      slots_goa_def prompt_divisions float_div_int_zero)

text \<open>
  Claim C10 says that after any exception of the feasibility check the request goes on
  with a standard plan. With nobody travelling (\<open>num_people = 0\<close>, which the completeness
  check does not look at) the check divides by zero and the verdict is the default one;
  the standard prompt is then built, and line 483 divides the budget by
  \<open>num_days * num_people\<close>, outside the \<open>try\<close> block of the check: the request ends in the
  failure response of the outermost handler, after the research and the transport
  estimate, and the planning agent is never called.
\<close>

theorem nobody_travelling_request_fails:
  "missing_fields (merged_slots None slots_nobody) = [] \<and>
   feasibility_try env_answering research_3000 slots_nobody =
     (Inl ZeroDivisionError, [TransportCall ''Mumbai'' ''Goa'' 0]) \<and>
   budget_validation env_answering research_3000 slots_nobody =
     (\<lparr> is_budget_sufficient = True, shortfall = Finite 0, budget_tier = Moderate \<rparr>,
      [TransportCall ''Mumbai'' ''Goa'' 0]) \<and>
   select_strategy \<lparr> is_budget_sufficient = True, shortfall = Finite 0, budget_tier = Moderate \<rparr>
     = StandardPlanning Moderate \<and>
   create_standard_planning_prompt env_answering slots_nobody = Inl ZeroDivisionError \<and>
   plan_trip_from_prompt env_answering 0 0 empty_cache None (Inr slots_nobody) =
     (PlanningFailed, cache_research empty_cache 0 ''Goa'' research_3000,
      [ResearchCall ''Goa'', TransportCall ''Mumbai'' ''Goa'' 0])"
proof -
  have b: "budget_validation env_answering research_3000 slots_nobody =
      (\<lparr> is_budget_sufficient = True, shortfall = Finite 0, budget_tier = Moderate \<rparr>,
       [TransportCall ''Mumbai'' ''Goa'' 0])"
    by (simp add: budget_validation_def feasibility_try_nobody default_verdict_def)
  have d: "destination slots_nobody = ''Goa''"
    by (simp add: slots_nobody_def slots_goa_def)
  have m: "master_prompt env_answering slots_nobody
      \<lparr> is_budget_sufficient = True, shortfall = Finite 0, budget_tier = Moderate \<rparr> =
        Inl ZeroDivisionError"
    by (simp add: master_prompt_def standard_prompt_nobody)
  have "plan_trip_from_prompt env_answering 0 0 empty_cache None (Inr slots_nobody) =
     (PlanningFailed, cache_research empty_cache 0 ''Goa'' research_3000,
      [ResearchCall ''Goa'', TransportCall ''Mumbai'' ''Goa'' 0])"
    by (simp add: plan_trip_from_prompt_def merged_slots_def missing_fields_nobody Let_def
        b d m research_phase_first_request)
  then show ?thesis
    by (simp add: merged_slots_def missing_fields_nobody feasibility_try_nobody b
        standard_prompt_nobody select_strategy_def)
qed

text \<open>
  With somebody travelling the claim holds on the example of the two failed estimators:
  the default verdict, the standard plan asked for, and no insufficiency in the slots
  returned.
\<close>

lemma failed_estimators_standard_plan:
  "plan_trip_from_prompt env_no_transport 0 0 empty_cache None (Inr (slots_goa 5000)) =
     (TripPlanGenerated ''plan''
        (planned_details (slots_goa 5000)
           \<lparr> is_budget_sufficient = True, shortfall = Finite 0, budget_tier = Moderate \<rparr>)
        research_3000,
      cache_research empty_cache 0 ''Goa'' research_3000,
      [ResearchCall ''Goa'', TransportCall ''Mumbai'' ''Goa'' 2,
       TransportFallbackCall ''Mumbai'' ''Goa'' 2, PlanningCall (StandardPlanning Moderate)])"
proof -
  have a: "missing_fields (slots_goa 5000) = []"
    by (simp add: slots_goa_def missing_fields_def validation_sentinels_def truthy_str_def
        lower_simps lower_char_def)
  have b: "budget_validation env_no_transport research_3000 (slots_goa 5000) =
      (\<lparr> is_budget_sufficient = True, shortfall = Finite 0, budget_tier = Moderate \<rparr>,
       [TransportCall ''Mumbai'' ''Goa'' 2, TransportFallbackCall ''Mumbai'' ''Goa'' 2])"
    by (simp add: budget_validation_def feasibility_try_def parse_3000 transport_step_def
        env_no_transport_def env_answering_def slots_goa_def default_verdict_def)
  have c: "research_phase env_no_transport 0 0 empty_cache ''Goa'' =
      (Inr research_3000, cache_research empty_cache 0 ''Goa'' research_3000,
       [ResearchCall ''Goa''])"
    by (simp add: research_phase_def get_cached_research_def empty_cache_def
        env_no_transport_def env_answering_def)
  have d: "destination (slots_goa 5000) = ''Goa''"
    by (simp add: slots_goa_def)
  have e: "agent_executor env_no_transport s td r = Inr ''plan''" for s td r
    by (simp add: env_no_transport_def env_answering_def)
  have m: "master_prompt env_no_transport (slots_goa 5000)
      \<lparr> is_budget_sufficient = True, shortfall = Finite 0, budget_tier = Moderate \<rparr> = Inr ()"
    by (simp add: master_prompt_def create_standard_planning_prompt_def env_no_transport_def
        env_answering_def slots_goa_def prompt_divisions)
  show ?thesis
    by (simp add: plan_trip_from_prompt_def merged_slots_def Let_def a b c d e m
        select_strategy_def)
qed


section \<open>The feasibility arithmetic and the tiers\<close>

text \<open>
  The examples of the specification hold in the code: with a daily minimum of 3000, five
  days, two people and a transport total of 8000 the total required is 44000; a budget of
  40000 is insufficient with a shortfall of 4000, budgets of 44000 and 50000 are
  sufficient.
\<close>

lemma feasibility_spec_examples:
  "spec_required_total 3000 (slots_goa 40000) 8000 = 44000 \<and>
   budget_validation env_answering research_3000 (slots_goa 40000) =
     (\<lparr> is_budget_sufficient = False, shortfall = Finite 4000, budget_tier = Moderate \<rparr>,
      [TransportCall ''Mumbai'' ''Goa'' 2]) \<and>
   budget_validation env_answering research_3000 (slots_goa 44000) =
     (\<lparr> is_budget_sufficient = True, shortfall = Finite 0, budget_tier = Moderate \<rparr>,
      [TransportCall ''Mumbai'' ''Goa'' 2]) \<and>
   budget_validation env_answering research_3000 (slots_goa 50000) =
     (\<lparr> is_budget_sufficient = True, shortfall = Finite 0, budget_tier = Moderate \<rparr>,
      [TransportCall ''Mumbai'' ''Goa'' 2])"
proof -
  have "transport_step env_answering (slots_goa b) =
      (Inr 8000, [TransportCall ''Mumbai'' ''Goa'' 2])" for b
    by (simp add: transport_answering slots_goa_def)
  then show ?thesis
    by (simp add: budget_validation_def feasibility_try_def parse_3000
        feasibility_arith_examples)
       (simp add: spec_required_total_def slots_goa_def)
qed

text \<open>
  Claim C1 says that the formula holds for every researched daily minimum. A research text
  with the labelled minimum 0 makes the last \<open>print\<close> of the block (line 2487) divide by
  zero, after the verdict has been computed; the handler then sets the default verdict.
  With five days, two people, a transport total of 8000 and a budget of 5000, the formula
  requires 8000, more than the budget, and the code answers that the budget is
  sufficient, with no shortfall.
\<close>

theorem zero_minimum_defaults_to_sufficient:
  "parse_min_daily (minimum_budget research_zero) = Inr 0 \<and>
   fst (transport_step env_answering (slots_goa 5000)) = Inr 8000 \<and>
   spec_required_total 0 (slots_goa 5000) 8000 = 8000 \<and>
   \<not> budget (slots_goa 5000) \<ge> spec_required_total 0 (slots_goa 5000) 8000 \<and>
   fst (feasibility_try env_answering research_zero (slots_goa 5000)) = Inl ZeroDivisionError \<and>
   fst (budget_validation env_answering research_zero (slots_goa 5000)) =
     \<lparr> is_budget_sufficient = True, shortfall = Finite 0, budget_tier = Moderate \<rparr>"
proof -
  have a: "feasibility_try env_answering research_zero (slots_goa 5000) =
      (Inl ZeroDivisionError, [TransportCall ''Mumbai'' ''Goa'' 2])"
    by (simp add: feasibility_try_def parse_zero transport_answering
        feasibility_arith_examples)
       (simp add: slots_goa_def)
  show ?thesis
    by (simp add: parse_zero transport_answering a budget_validation_def default_verdict_def)
       (simp add: spec_required_total_def slots_goa_def)
qed

text \<open>
  At the boundaries of the specification's example the tiers are as it says: 3900 a day
  per person against a minimum of 3000 is the moderate tier, with a budget that is
  insufficient; 7500 is the luxury tier.
\<close>

lemma tier_boundaries_3000:
  "spec_ratio 3000 (slots_goa 39000) = 13 / 10 \<and>
   feasibility_arith 3000 (slots_goa 39000) 8000 =
     Inr (Finite 44000,
          \<lparr> is_budget_sufficient = False, shortfall = Finite 5000, budget_tier = Moderate \<rparr>) \<and>
   spec_ratio 3000 (slots_goa 75000) = 5 / 2 \<and>
   feasibility_arith 3000 (slots_goa 75000) 8000 =
     Inr (Finite 44000,
          \<lparr> is_budget_sufficient = True, shortfall = Finite 0, budget_tier = Luxury \<rparr>)"
  by (simp add: feasibility_arith_examples) (simp add: spec_ratio_def slots_goa_def)

text \<open>
  Claim C2 says that a ratio of exactly 1.3 gives the moderate tier. The code does not
  compute the ratio: it compares the float \<open>budget / num_people / num_days\<close> with the
  float \<open>minimum * 1.3\<close>. With a minimum of 2999 and a budget of 38987 for two people and
  five days, the ratio is 1.3; the quotient rounds to the double below 3898.7 and the
  product to the double above it, and the tier is budget-friendly.
\<close>

theorem tier_boundary_rounding:
  "parse_min_daily (minimum_budget research_2999) = Inr 2999 \<and>
   spec_ratio 2999 (slots_goa 38987) = 13 / 10 \<and>
   float_div_int (Finite (38987 / 2)) 5 = Inr (Finite (4286665983210291 / 1099511627776)) \<and>
   int_mul_float 2999 float_1_3 = Inr (Finite (8573331966420583 / 2199023255552)) \<and>
   fl_less (Finite (4286665983210291 / 1099511627776))
     (Finite (8573331966420583 / 2199023255552)) \<and>
   feasibility_arith 2999 (slots_goa 38987) 8000 =
     Inr (Finite 43988,
          \<lparr> is_budget_sufficient = False, shortfall = Finite 5001,
            budget_tier = BudgetFriendly \<rparr>)"
  by (simp add: parse_2999 feasibility_arith_examples quotients_38987 products_1_3 fl_less_def)
     (simp add: spec_ratio_def slots_goa_def)

end
